theory Spec2Isabelle
  imports Main
begin

section \<open>Python strings\<close>

text \<open>
  A Python \<open>str\<close> is modelled by its UTF-8 encoding: a \<open>string\<close> of bytes, in which a
  character takes one to four bytes (a lone surrogate, which a \<open>str\<close> can hold, is
  encoded like any other code point). Every character that the program and its libraries
  search for, split at, strip or replace is ASCII: a single byte, which occurs in the
  encoding of no other character. So these operations act on the bytes as they act on the
  characters. Two library checks look at characters beyond ASCII, and decode them: the
  class \<open>\d\<close> of regular expressions, which matches the decimal digits of every script,
  and the check of a host name under NFKC.
\<close>

text \<open>The ASCII digits, letters and ranges.\<close>

definition is_digit :: "char \<Rightarrow> bool" where
  "is_digit c = (48 \<le> (of_char c :: nat) \<and> (of_char c :: nat) \<le> 57)"

definition is_upper :: "char \<Rightarrow> bool" where
  "is_upper c = (65 \<le> (of_char c :: nat) \<and> (of_char c :: nat) \<le> 90)"

definition is_lower :: "char \<Rightarrow> bool" where
  "is_lower c = (97 \<le> (of_char c :: nat) \<and> (of_char c :: nat) \<le> 122)"

definition to_lower :: "char \<Rightarrow> char" where
  "to_lower c = (if is_upper c then char_of ((of_char c :: nat) + 32) else c)"

definition in_range :: "char \<Rightarrow> char \<Rightarrow> char \<Rightarrow> bool" where
  "in_range lo hi c = ((of_char lo :: nat) \<le> of_char c \<and> (of_char c :: nat) \<le> of_char hi)"

definition digit_val :: "char \<Rightarrow> nat" where
  "digit_val c = (of_char c :: nat) - 48"

definition newline :: char where
  "newline = CHR 0x0A"

text \<open>
  The first character of a string: its code point and the rest of the string, \<open>None\<close>
  where the bytes do not begin with the encoding of a character. \<open>cont_bytes k\<close> reads
  \<open>k\<close> continuation bytes, six bits each.
\<close>

fun cont_bytes :: "nat \<Rightarrow> int \<Rightarrow> string \<Rightarrow> (int \<times> string) option" where
  "cont_bytes 0 acc s = Some (acc, s)"
| "cont_bytes (Suc k) acc [] = None"
| "cont_bytes (Suc k) acc (b # r) =
     (if 128 \<le> (of_char b :: int) \<and> (of_char b :: int) < 192
      then cont_bytes k (acc * 64 + ((of_char b :: int) - 128)) r
      else None)"

definition in_span :: "int \<Rightarrow> int \<Rightarrow> (int \<times> string) option \<Rightarrow> (int \<times> string) option" where
  "in_span lo hi x =
     (case x of
        None \<Rightarrow> None
      | Some (cp, r) \<Rightarrow> if lo \<le> cp \<and> cp < hi then Some (cp, r) else None)"

definition utf8_head :: "string \<Rightarrow> (int \<times> string) option" where
  "utf8_head s =
     (case s of
        [] \<Rightarrow> None
      | a # r \<Rightarrow>
          if (of_char a :: int) < 128 then Some (of_char a, r)
          else if (of_char a :: int) < 192 then None
          else if (of_char a :: int) < 224
          then in_span 0x80 0x800 (cont_bytes 1 ((of_char a :: int) - 192) r)
          else if (of_char a :: int) < 240
          then in_span 0x800 0x10000 (cont_bytes 2 ((of_char a :: int) - 224) r)
          else if (of_char a :: int) < 248
          then in_span 0x10000 0x110000 (cont_bytes 3 ((of_char a :: int) - 240) r)
          else None)"

text \<open>
  The decimal digits of Unicode 14.0, the character database of CPython 3.11: sixty-six
  decades of consecutive code points, each the digits zero to nine of a script in this
  order. The list holds the zero of each decade; the first is the ASCII \<open>0\<close>, the second
  the Arabic-Indic zero.
\<close>

definition decimal_zeros :: "int list" where
  "decimal_zeros =
     [0x30, 0x660, 0x6F0, 0x7C0, 0x966, 0x9E6, 0xA66, 0xAE6, 0xB66, 0xBE6, 0xC66, 0xCE6,
      0xD66, 0xDE6, 0xE50, 0xED0, 0xF20, 0x1040, 0x1090, 0x17E0, 0x1810, 0x1946, 0x19D0,
      0x1A80, 0x1A90, 0x1B50, 0x1BB0, 0x1C40, 0x1C50, 0xA620, 0xA8D0, 0xA900, 0xA9D0,
      0xA9F0, 0xAA50, 0xABF0, 0xFF10, 0x104A0, 0x10D30, 0x11066, 0x110F0, 0x11136,
      0x111D0, 0x112F0, 0x11450, 0x114D0, 0x11650, 0x116C0, 0x11730, 0x118E0, 0x11950,
      0x11C50, 0x11D50, 0x11DA0, 0x16A60, 0x16AC0, 0x16B50, 0x1D7CE, 0x1D7D8, 0x1D7E2,
      0x1D7EC, 0x1D7F6, 0x1E140, 0x1E2F0, 0x1E950, 0x1FBF0]"

definition decimal_value :: "int \<Rightarrow> nat option" where
  "decimal_value cp =
     map_option (\<lambda>z. nat (cp - z)) (List.find (\<lambda>z. z \<le> cp \<and> cp < z + 10) decimal_zeros)"

text \<open>
  The class \<open>\d\<close> at the head of a string: the value of the digit, as \<open>int\<close> reads it, and
  the rest of the string. \<open>re_digits n\<close> is \<open>\d{n}\<close>: the rest after \<open>n\<close> digits.
\<close>

definition re_digit :: "string \<Rightarrow> (nat \<times> string) option" where
  "re_digit s =
     (case utf8_head s of
        None \<Rightarrow> None
      | Some (cp, r) \<Rightarrow> map_option (\<lambda>v. (v, r)) (decimal_value cp))"

fun re_digits :: "nat \<Rightarrow> string \<Rightarrow> string option" where
  "re_digits 0 s = Some s"
| "re_digits (Suc n) s = (case re_digit s of None \<Rightarrow> None | Some (v, r) \<Rightarrow> re_digits n r)"

text \<open>\<open>s.strip(c)\<close> for a single character \<open>c\<close>.\<close>

definition py_strip :: "char \<Rightarrow> string \<Rightarrow> string" where
  "py_strip c s = rev (dropWhile (\<lambda>x. x = c) (rev (dropWhile (\<lambda>x. x = c) s)))"

text \<open>\<open>s.split(sep)\<close> for a single character \<open>sep\<close>: never the empty list.\<close>

fun py_split :: "char \<Rightarrow> string \<Rightarrow> string list" where
  "py_split sep [] = [[]]"
| "py_split sep (c # cs) =
     (if c = sep then [] # py_split sep cs
      else (case py_split sep cs of
              [] \<Rightarrow> [[c]]
            | w # ws \<Rightarrow> (c # w) # ws))"

text \<open>\<open>sep.join(xs)\<close>.\<close>

fun py_join :: "string \<Rightarrow> string list \<Rightarrow> string" where
  "py_join sep [] = []"
| "py_join sep [x] = x"
| "py_join sep (x # y # ys) = x @ sep @ py_join sep (y # ys)"

text \<open>
  \<open>s.replace(old, new)\<close> for a non-empty \<open>old\<close>: the occurrences are replaced from the
  left, without overlap.
\<close>

function py_replace :: "string \<Rightarrow> string \<Rightarrow> string \<Rightarrow> string" where
  "py_replace old new [] = []"
| "py_replace old new (c # cs) =
     (if old \<noteq> [] \<and> take (length old) (c # cs) = old
      then new @ py_replace old new (drop (length old) (c # cs))
      else c # py_replace old new cs)"
  by pat_completeness auto
termination
  by (relation "measure (\<lambda>(old, new, s). length s)") (auto simp: neq_Nil_conv)

text \<open>\<open>xs[-2:]\<close> and \<open>xs[:-2]\<close>.\<close>

definition last_two :: "'a list \<Rightarrow> 'a list" where
  "last_two xs = drop (length xs - 2) xs"

definition but_last_two :: "'a list \<Rightarrow> 'a list" where
  "but_last_two xs = take (length xs - 2) xs"

section \<open>The path of a URL\<close>

text \<open>
  A host in brackets has to be an address literal, which the library checks with
  \<open>ipaddress\<close>. An octet of a dotted IPv4 address is one to three ASCII digits without a
  leading zero, at most 255; a group of an IPv6 address is one to four hexadecimal
  digits.
\<close>

definition is_hex :: "char \<Rightarrow> bool" where
  "is_hex c = (is_digit c \<or> in_range (CHR ''a'') (CHR ''f'') c \<or> in_range (CHR ''A'') (CHR ''F'') c)"

definition valid_octet :: "string \<Rightarrow> bool" where
  "valid_octet s =
     (s \<noteq> [] \<and> list_all is_digit s \<and> length s \<le> 3 \<and> (s = ''0'' \<or> hd s \<noteq> CHR ''0'')
      \<and> foldl (\<lambda>n c. 10 * n + digit_val c) 0 s \<le> 255)"

definition valid_ipv4 :: "string \<Rightarrow> bool" where
  "valid_ipv4 s =
     (CHR ''/'' \<notin> set s \<and> s \<noteq> [] \<and> length (py_split (CHR ''.'') s) = 4
      \<and> list_all valid_octet (py_split (CHR ''.'') s))"

definition valid_hextet :: "string \<Rightarrow> bool" where
  "valid_hextet s = (s \<noteq> [] \<and> list_all is_hex s \<and> length s \<le> 4)"

text \<open>
  \<open>IPv6Address\<close> accepts a string: an optional scope after \<open>%\<close>; three to nine parts
  between colons, a dotted IPv4 address in the last part counting as two groups; without
  an empty part in the middle eight groups, with one (the \<open>::\<close>) fewer, an empty first or
  last part being allowed only next to it.
\<close>

definition valid_ipv6 :: "string \<Rightarrow> bool" where
  "valid_ipv6 s =
     (let addr = takeWhile (\<lambda>c. c \<noteq> CHR ''%'') s;
          scope = drop (Suc (length addr)) s;
          parts0 = py_split (CHR '':'') addr;
          v4 = (CHR ''.'' \<in> set (last parts0));
          parts = (if v4 then butlast parts0 @ [''0'', ''0''] else parts0);
          n = length parts;
          skips = filter (\<lambda>i. parts ! i = []) [1..<n - 1]
      in CHR ''/'' \<notin> set s
         \<and> (if CHR ''%'' \<in> set s then scope \<noteq> [] \<and> CHR ''%'' \<notin> set scope else True)
         \<and> addr \<noteq> [] \<and> 3 \<le> length parts0
         \<and> (if v4 then valid_ipv4 (last parts0) else True)
         \<and> n \<le> 9
         \<and> (case skips of
               [] \<Rightarrow> n = 8 \<and> list_all valid_hextet parts
             | [k] \<Rightarrow>
                 (let hi = (if hd parts = [] then k - 1 else k);
                      lo = (if last parts = [] then n - k - 2 else n - k - 1)
                  in (if hd parts = [] then hi = 0 else True)
                     \<and> (if last parts = [] then lo = 0 else True)
                     \<and> hi + lo < 8
                     \<and> list_all valid_hextet (take hi parts)
                     \<and> list_all valid_hextet (drop (n - lo) parts))
             | _ \<Rightarrow> False))"

text \<open>
  \<open>_check_bracketed_host\<close>: a host that begins with \<open>v\<close> has to be \<open>v\<close>, hexadecimal
  digits, a dot and something more; any other has to be an IPv6 address.
\<close>

definition bracketed_host_ok :: "string \<Rightarrow> bool" where
  "bracketed_host_ok h =
     (case h of
        [] \<Rightarrow> False
      | c # r \<Rightarrow>
          if c = CHR ''v''
          then (case dropWhile is_hex r of
                  [] \<Rightarrow> False
                | d # r1 \<Rightarrow> takeWhile is_hex r \<noteq> [] \<and> d = CHR ''.'' \<and> r1 \<noteq> [])
          else \<not> valid_ipv4 h \<and> valid_ipv6 h)"

text \<open>
  \<open>_checknetloc\<close>: the characters whose compatibility form (NFKC) holds one of \<open>/\<close>, \<open>?\<close>,
  \<open>#\<close>, \<open>@\<close>, \<open>:\<close>, such as the sign \<open>a/c\<close>, U+2100. An authority that holds one of them
  is refused.
\<close>

definition nfkc_unsafe :: "int list" where
  "nfkc_unsafe =
     [0x2047, 0x2048, 0x2049, 0x2100, 0x2101, 0x2105, 0x2106, 0x2A74, 0xFE13, 0xFE16,
      0xFE55, 0xFE56, 0xFE5F, 0xFE6B, 0xFF03, 0xFF0F, 0xFF1A, 0xFF1F, 0xFF20]"

definition checknetloc :: "string \<Rightarrow> bool" where
  "checknetloc netloc =
     (\<not> list_ex (\<lambda>i. case utf8_head (drop i netloc) of
                        None \<Rightarrow> False
                      | Some (cp, r) \<Rightarrow> cp \<in> set nfkc_unsafe)
          [0..<length netloc])"

text \<open>
  \<open>urlparse(url).path\<close> of the standard library (\<open>urllib.parse\<close>, as of CPython 3.11.10),
  \<open>None\<close> where it raises \<open>ValueError\<close>. Leading control characters and spaces are
  dropped, tabs and line breaks are removed, then scheme, authority, fragment, query and
  parameters are cut off in this order.
\<close>

definition c0_control_or_space :: "char \<Rightarrow> bool" where
  "c0_control_or_space c = ((of_char c :: nat) \<le> 32)"

definition unsafe_url_byte :: "char \<Rightarrow> bool" where
  "unsafe_url_byte c = (c = CHR 0x09 \<or> c = CHR 0x0D \<or> c = CHR 0x0A)"

definition scheme_char :: "char \<Rightarrow> bool" where
  "scheme_char c =
     (is_lower c \<or> is_upper c \<or> is_digit c \<or> c = CHR ''+'' \<or> c = CHR ''-'' \<or> c = CHR ''.'')"

definition uses_params :: "string list" where
  "uses_params = ['''', ''ftp'', ''hdl'', ''prospero'', ''http'', ''imap'', ''https'',
     ''shttp'', ''rtsp'', ''rtspu'', ''sip'', ''sips'', ''mms'', ''sftp'', ''tel'']"

definition split_scheme :: "string \<Rightarrow> string \<times> string" where
  "split_scheme url =
     (let head = takeWhile (\<lambda>c. c \<noteq> CHR '':'') url in
      if CHR '':'' \<in> set url \<and> head \<noteq> [] \<and> (is_lower (hd head) \<or> is_upper (hd head))
         \<and> list_all scheme_char head
      then (map to_lower head, drop (Suc (length head)) url)
      else ([], url))"

definition netloc_end :: "char \<Rightarrow> bool" where
  "netloc_end c = (c = CHR ''/'' \<or> c = CHR ''?'' \<or> c = CHR ''#'')"

definition split_netloc :: "string \<Rightarrow> string \<times> string" where
  "split_netloc url =
     (if take 2 url = ''//''
      then (takeWhile (\<lambda>c. \<not> netloc_end c) (drop 2 url),
            dropWhile (\<lambda>c. \<not> netloc_end c) (drop 2 url))
      else ([], url))"

text \<open>
  The checks of the authority: brackets come in pairs, and the host between the first
  \<open>[\<close> and the next \<open>]\<close> is an address literal; no character is unsafe under NFKC.
\<close>

definition netloc_ok :: "string \<Rightarrow> bool" where
  "netloc_ok netloc =
     (if CHR ''['' \<in> set netloc \<and> CHR '']'' \<in> set netloc
      then bracketed_host_ok
             (takeWhile (\<lambda>c. c \<noteq> CHR '']'') (drop 1 (dropWhile (\<lambda>c. c \<noteq> CHR ''['') netloc)))
           \<and> checknetloc netloc
      else CHR ''['' \<notin> set netloc \<and> CHR '']'' \<notin> set netloc \<and> checknetloc netloc)"

definition split_params :: "string \<Rightarrow> string" where
  "split_params url =
     (let tl_seg = rev (takeWhile (\<lambda>c. c \<noteq> CHR ''/'') (rev url));
          hd_part = take (length url - length tl_seg) url
      in if CHR ''/'' \<in> set url
         then butlast hd_part @ takeWhile (\<lambda>c. c \<noteq> CHR '';'') (CHR ''/'' # tl_seg)
         else takeWhile (\<lambda>c. c \<noteq> CHR '';'') url)"

definition urlparse_path :: "string \<Rightarrow> string option" where
  "urlparse_path url0 =
     (let url1 = filter (\<lambda>c. \<not> unsafe_url_byte c) (dropWhile c0_control_or_space url0);
          (scheme, url2) = split_scheme url1;
          (netloc, url3) = split_netloc url2
      in if \<not> netloc_ok netloc then None
         else let url4 = takeWhile (\<lambda>c. c \<noteq> CHR ''#'') url3;
                  url5 = takeWhile (\<lambda>c. c \<noteq> CHR ''?'') url4
              in Some (if scheme \<in> set uses_params \<and> CHR '';'' \<in> set url5
                       then split_params url5 else url5))"

section \<open>Decoding a listing URL\<close>

text \<open>
  The pattern \<open>^(.+?)-([A-Z]{2})-(\d{5})$\<close> under \<open>re.search\<close>. \<open>tail_match\<close> is the part
  after the first group: \<open>-\<close>, two letters from \<open>A\<close> to \<open>Z\<close>, \<open>-\<close>, five digits of \<open>\d\<close>,
  and \<open>$\<close>, which holds at the end of the string and before a line break that ends the
  string. It returns the second and the third group.
\<close>

definition tail_match :: "string \<Rightarrow> (string \<times> string) option" where
  "tail_match s =
     (case s of
        d1 # a # b # d2 # ds \<Rightarrow>
          if d1 = CHR ''-'' \<and> is_upper a \<and> is_upper b \<and> d2 = CHR ''-''
          then (case re_digits 5 ds of
                  None \<Rightarrow> None
                | Some rest \<Rightarrow>
                    if rest = [] \<or> rest = [newline]
                    then Some ([a, b], take (length ds - length rest) ds)
                    else None)
          else None
      | _ \<Rightarrow> None)"

text \<open>
  The lazy first group \<open>(.+?)\<close>: one character that is not a line break, then as few more
  as the rest of the pattern allows. \<open>pre\<close> is what the group holds so far. The rest of the
  pattern begins with \<open>-\<close>, so it is tried, and can match, only where a character begins.
\<close>

fun lazy_group :: "string \<Rightarrow> string \<Rightarrow> (string \<times> string \<times> string) option" where
  "lazy_group pre [] = None"
| "lazy_group pre (c # cs) =
     (if c = newline then None
      else (case tail_match cs of
              Some (st, zc) \<Rightarrow> Some (pre @ [c], st, zc)
            | None \<Rightarrow> lazy_group (pre @ [c]) cs))"

definition re_search_address :: "string \<Rightarrow> (string \<times> string \<times> string) option" where
  "re_search_address s = lazy_group [] s"

record parsed_url =
  property_id :: string
  address :: string
  city :: string
  state :: string
  zipcode :: string

text \<open>
  \<open>parse_listing_url\<close>: \<open>None\<close> is both the explicit \<open>return None\<close> and the exception
  handler, which logs at debug level and falls through to it.
\<close>

definition parse_listing_url :: "string \<Rightarrow> parsed_url option" where
  "parse_listing_url url =
     (case urlparse_path url of
        None \<Rightarrow> None
      | Some path \<Rightarrow>
          (let parts = py_split (CHR ''/'') (py_strip (CHR ''/'') path) in
           if length parts \<ge> 3 then
             (let address_part = parts ! 1;
                  id_part = parts ! 2;
                  pid = py_replace ''_zpid'' [] id_part
              in case re_search_address address_part of
                   None \<Rightarrow> None
                 | Some (address_city, st, zc) \<Rightarrow>
                     (let parts_list = py_split (CHR ''-'') address_city in
                      if length parts_list \<ge> 2
                      then Some \<lparr>property_id = pid,
                                 address = py_join '' '' (but_last_two parts_list),
                                 city = py_join '' '' (last_two parts_list),
                                 state = st, zipcode = zc\<rparr>
                      else Some \<lparr>property_id = pid,
                                 address = py_replace ''-'' '' '' address_city,
                                 city = [],
                                 state = st, zipcode = zc\<rparr>))
           else None))"


text \<open>
  The shape the specification asks of the second segment: a prefix that is not empty,
  then \<open>-\<close>, two upper-case letters, \<open>-\<close> and five digits, which end the segment. The
  letters are \<open>A\<close> to \<open>Z\<close>; a digit is a decimal digit of any script.
\<close>

definition slug_tail :: "string \<Rightarrow> bool" where
  "slug_tail t =
     (case t of
        d1 # a # b # d2 # ds \<Rightarrow>
          d1 = CHR ''-'' \<and> is_upper a \<and> is_upper b \<and> d2 = CHR ''-'' \<and> re_digits 5 ds = Some []
      | _ \<Rightarrow> False)"

definition slug_shape :: "string \<Rightarrow> bool" where
  "slug_shape seg = list_ex (\<lambda>i. slug_tail (drop i seg)) [1..<length seg]"

section \<open>Time conversion\<close>

record naive_datetime =
  year :: nat
  month :: nat
  day :: nat
  hour :: nat
  minute :: nat
  second :: nat

record aware_datetime = naive_datetime +
  utcoffset :: int
  tzname :: string

subsection \<open>The calendar of \<open>datetime\<close>\<close>

definition is_leap :: "nat \<Rightarrow> bool" where
  "is_leap y = (y mod 4 = 0 \<and> (y mod 100 \<noteq> 0 \<or> y mod 400 = 0))"

definition DAYS_IN_MONTH :: "nat list" where
  "DAYS_IN_MONTH = [0, 31, 28, 31, 30, 31, 30, 31, 31, 30, 31, 30, 31]"

definition DAYS_BEFORE_MONTH :: "nat list" where
  "DAYS_BEFORE_MONTH = [0, 0, 31, 59, 90, 120, 151, 181, 212, 243, 273, 304, 334]"

definition days_in_month :: "nat \<Rightarrow> nat \<Rightarrow> nat" where
  "days_in_month y m = (if m = 2 \<and> is_leap y then 29 else DAYS_IN_MONTH ! m)"

definition days_before_year :: "nat \<Rightarrow> nat" where
  "days_before_year y = (y - 1) * 365 + (y - 1) div 4 - (y - 1) div 100 + (y - 1) div 400"

definition days_before_month :: "nat \<Rightarrow> nat \<Rightarrow> nat" where
  "days_before_month y m = DAYS_BEFORE_MONTH ! m + (if m > 2 \<and> is_leap y then 1 else 0)"

definition ymd2ord :: "nat \<Rightarrow> nat \<Rightarrow> nat \<Rightarrow> nat" where
  "ymd2ord y m d = days_before_year y + days_before_month y m + d"

text \<open>\<open>_ord2ymd\<close>: the date of a proleptic Gregorian ordinal, day 1 being 0001-01-01.\<close>

definition ord2ymd :: "nat \<Rightarrow> nat \<times> nat \<times> nat" where
  "ord2ymd n0 =
     (let n = n0 - 1;
          n400 = n div 146097; n = n mod 146097;
          n100 = n div 36524; n = n mod 36524;
          n4 = n div 1461; n = n mod 1461;
          n1 = n div 365; n = n mod 365;
          y = n400 * 400 + 1 + n100 * 100 + n4 * 4 + n1
      in if n1 = 4 \<or> n100 = 4 then (y - 1, 12, 31)
         else (let leapyear = (n1 = 3 \<and> (n4 \<noteq> 24 \<or> n100 = 3));
                   m = (n + 50) div 32;
                   preceding = DAYS_BEFORE_MONTH ! m + (if m > 2 \<and> leapyear then 1 else 0)
               in if preceding > n
                  then (y, m - 1,
                        Suc (n - (preceding - (DAYS_IN_MONTH ! (m - 1)
                                     + (if m - 1 = 2 \<and> leapyear then 1 else 0)))))
                  else (y, m, Suc (n - preceding))))"

text \<open>Seconds since the midnight that begins ordinal day 0.\<close>

definition to_seconds :: "naive_datetime \<Rightarrow> int" where
  "to_seconds dt =
     int (ymd2ord (year dt) (month dt) (day dt)) * 86400
       + int (hour dt) * 3600 + int (minute dt) * 60 + int (second dt)"

definition min_seconds :: int where
  "min_seconds = 86400"

definition max_seconds :: int where
  "max_seconds = int (ymd2ord 9999 12 31) * 86400 + 86399"

definition from_seconds :: "int \<Rightarrow> naive_datetime" where
  "from_seconds t =
     (let (y, m, d) = ord2ymd (nat (t div 86400)); r = nat (t mod 86400)
      in \<lparr>year = y, month = m, day = d,
          hour = r div 3600, minute = (r mod 3600) div 60, second = r mod 60\<rparr>)"

subsection \<open>\<open>datetime.strptime\<close> with the format \<open>%Y-%m-%dT%H:%M:%S\<close>\<close>

text \<open>
  The library turns the format into a regular expression, matched from the start of the
  string without case: \<open>%Y\<close> is \<open>\d\d\d\d\<close>, \<open>%m\<close> is \<open>1[0-2]|0[1-9]|[1-9]\<close>, \<open>%d\<close> is
  \<open>3[0-1]|[1-2]\d|0[1-9]|[1-9]| [1-9]\<close>, \<open>%H\<close> is \<open>2[0-3]|[0-1]\d|\d\<close>, \<open>%M\<close> is
  \<open>[0-5]\d|\d\<close> and \<open>%S\<close> is \<open>6[0-1]|[0-5]\d|\d\<close>. Each piece returns its matches, value and
  rest, in the order the backtracking matcher tries them. A range such as \<open>[0-2]\<close> holds
  ASCII digits only, \<open>\d\<close> is a decimal digit of any script, and the value of a field is
  what \<open>int\<close> reads in its digits.
\<close>

definition ascii_digit :: "char \<Rightarrow> char \<Rightarrow> string \<Rightarrow> (nat \<times> string) list" where
  "ascii_digit lo hi s =
     (case s of a # r \<Rightarrow> if in_range lo hi a then [(digit_val a, r)] else [] | _ \<Rightarrow> [])"

definition any_digit :: "string \<Rightarrow> (nat \<times> string) list" where
  "any_digit s = (case re_digit s of None \<Rightarrow> [] | Some x \<Rightarrow> [x])"

definition two_digits ::
  "(string \<Rightarrow> (nat \<times> string) list) \<Rightarrow> (string \<Rightarrow> (nat \<times> string) list) \<Rightarrow> string \<Rightarrow> (nat \<times> string) list" where
  "two_digits p q s = [(10 * a + b, r2). (a, r1) \<leftarrow> p s, (b, r2) \<leftarrow> q r1]"

definition lit :: "(char \<Rightarrow> bool) \<Rightarrow> string \<Rightarrow> string list" where
  "lit p s = (case s of a # r \<Rightarrow> if p a then [r] else [] | _ \<Rightarrow> [])"

definition re_Y :: "string \<Rightarrow> (nat \<times> string) list" where
  "re_Y s =
     [(1000 * a + 100 * b + 10 * c + d, r4).
        (a, r1) \<leftarrow> any_digit s, (b, r2) \<leftarrow> any_digit r1,
        (c, r3) \<leftarrow> any_digit r2, (d, r4) \<leftarrow> any_digit r3]"

definition re_m :: "string \<Rightarrow> (nat \<times> string) list" where
  "re_m s = two_digits (ascii_digit (CHR ''1'') (CHR ''1'')) (ascii_digit (CHR ''0'') (CHR ''2'')) s
          @ two_digits (ascii_digit (CHR ''0'') (CHR ''0'')) (ascii_digit (CHR ''1'') (CHR ''9'')) s
          @ ascii_digit (CHR ''1'') (CHR ''9'') s"

definition re_d :: "string \<Rightarrow> (nat \<times> string) list" where
  "re_d s = two_digits (ascii_digit (CHR ''3'') (CHR ''3'')) (ascii_digit (CHR ''0'') (CHR ''1'')) s
          @ two_digits (ascii_digit (CHR ''1'') (CHR ''2'')) any_digit s
          @ two_digits (ascii_digit (CHR ''0'') (CHR ''0'')) (ascii_digit (CHR ''1'') (CHR ''9'')) s
          @ ascii_digit (CHR ''1'') (CHR ''9'') s
          @ [(b, r2). r1 \<leftarrow> lit (\<lambda>c. c = CHR '' '') s,
                      (b, r2) \<leftarrow> ascii_digit (CHR ''1'') (CHR ''9'') r1]"

definition re_H :: "string \<Rightarrow> (nat \<times> string) list" where
  "re_H s = two_digits (ascii_digit (CHR ''2'') (CHR ''2'')) (ascii_digit (CHR ''0'') (CHR ''3'')) s
          @ two_digits (ascii_digit (CHR ''0'') (CHR ''1'')) any_digit s
          @ any_digit s"

definition re_M :: "string \<Rightarrow> (nat \<times> string) list" where
  "re_M s = two_digits (ascii_digit (CHR ''0'') (CHR ''5'')) any_digit s @ any_digit s"

definition re_S :: "string \<Rightarrow> (nat \<times> string) list" where
  "re_S s = two_digits (ascii_digit (CHR ''6'') (CHR ''6'')) (ascii_digit (CHR ''0'') (CHR ''1'')) s
          @ two_digits (ascii_digit (CHR ''0'') (CHR ''5'')) any_digit s
          @ any_digit s"

definition format_regex :: "string \<Rightarrow> (naive_datetime \<times> string) list" where
  "format_regex s =
     [(\<lparr>year = Y, month = m, day = d, hour = H, minute = M, second = S\<rparr>, r11).
        (Y, r1) \<leftarrow> re_Y s, r2 \<leftarrow> lit (\<lambda>c. c = CHR ''-'') r1,
        (m, r3) \<leftarrow> re_m r2, r4 \<leftarrow> lit (\<lambda>c. c = CHR ''-'') r3,
        (d, r5) \<leftarrow> re_d r4, r6 \<leftarrow> lit (\<lambda>c. c = CHR ''T'' \<or> c = CHR ''t'') r5,
        (H, r7) \<leftarrow> re_H r6, r8 \<leftarrow> lit (\<lambda>c. c = CHR '':'') r7,
        (M, r9) \<leftarrow> re_M r8, r10 \<leftarrow> lit (\<lambda>c. c = CHR '':'') r9,
        (S, r11) \<leftarrow> re_S r10]"

text \<open>
  \<open>None\<close> is \<open>ValueError\<close>: no match, unconverted data after the match, or a date or
  time that \<open>datetime\<close> rejects.
\<close>

definition strptime :: "string \<Rightarrow> naive_datetime option" where
  "strptime s =
     (case format_regex s of
        [] \<Rightarrow> None
      | (dt, rest) # _ \<Rightarrow>
          if rest \<noteq> [] then None
          else if 1 \<le> year dt \<and> day dt \<le> days_in_month (year dt) (month dt) \<and> second dt \<le> 59
          then Some dt else None)"

subsection \<open>The zone\<close>

text \<open>
  A zone gives the offset from UTC in seconds and the abbreviation in force at an instant
  of UTC. The program takes its zone from the table of \<open>pytz\<close>; the run reads it from the
  environment (\<open>est_tz\<close>). \<open>us_eastern\<close> is the rule of \<open>US/Eastern\<close> that the table holds
  for the years 2007 to 2037: daylight time from the second Sunday of March, 07:00 UTC,
  to the first Sunday of November, 06:00 UTC. For an instant of another year the table
  has other rules (local mean time before 1883), which \<open>us_eastern\<close> does not give; it
  is used below at instants of 2024 only.
\<close>

type_synonym tz = "naive_datetime \<Rightarrow> int \<times> string"

text \<open>\<open>weekday\<close>: Monday is 0, Sunday is 6.\<close>

definition weekday :: "nat \<Rightarrow> nat \<Rightarrow> nat \<Rightarrow> nat" where
  "weekday y m d = (ymd2ord y m d + 6) mod 7"

definition first_sunday_from :: "nat \<Rightarrow> nat \<Rightarrow> nat \<Rightarrow> nat" where
  "first_sunday_from y m d = d + (6 - weekday y m d)"

definition us_eastern :: tz where
  "us_eastern utc =
     (let y = year utc;
          dst_start = int (ymd2ord y 3 (first_sunday_from y 3 8)) * 86400 + 7 * 3600;
          dst_end = int (ymd2ord y 11 (first_sunday_from y 11 1)) * 86400 + 6 * 3600
      in if dst_start \<le> to_seconds utc \<and> to_seconds utc < dst_end
         then (- 14400, ''EDT'') else (- 18000, ''EST''))"

text \<open>
  \<open>utc_tz.localize(dt).astimezone(est_tz)\<close>: \<open>None\<close> is the \<open>OverflowError\<close> of a local
  time outside the years 1 to 9999.
\<close>

definition astimezone :: "tz \<Rightarrow> naive_datetime \<Rightarrow> aware_datetime option" where
  "astimezone z utc =
     (let (off, name) = z utc; t = to_seconds utc + off
      in if min_seconds \<le> t \<and> t \<le> max_seconds
         then Some (naive_datetime.extend (from_seconds t) \<lparr>utcoffset = off, tzname = name\<rparr>)
         else None)"

text \<open>
  \<open>convert_utc_to_est\<close>. The argument is \<open>None\<close> for Python's \<open>None\<close> (the text of an empty
  \<open><lastmod>\<close> element). Every \<open>Z\<close> of the string is removed before parsing.
\<close>

definition convert_utc_to_est :: "tz \<Rightarrow> string option \<Rightarrow> aware_datetime option" where
  "convert_utc_to_est est_tz utc_datetime_str =
     (case utc_datetime_str of
        None \<Rightarrow> None
      | Some s \<Rightarrow>
          if s = [] then None
          else (case strptime (py_replace ''Z'' [] s) of
                  None \<Rightarrow> None
                | Some utc_dt \<Rightarrow> astimezone est_tz utc_dt))"

text \<open>
  The form of a timestamp in the specification: \<open>YYYY-MM-DDTHH:MM:SS\<close> in digits, with
  an optional \<open>Z\<close> at the end.
\<close>

definition timestamp_form :: "string \<Rightarrow> bool" where
  "timestamp_form s =
     (let b = (if s \<noteq> [] \<and> last s = CHR ''Z'' then butlast s else s) in
      length b = 19
      \<and> list_all is_digit (take 4 b) \<and> b ! 4 = CHR ''-''
      \<and> list_all is_digit (take 2 (drop 5 b)) \<and> b ! 7 = CHR ''-''
      \<and> list_all is_digit (take 2 (drop 8 b)) \<and> b ! 10 = CHR ''T''
      \<and> list_all is_digit (take 2 (drop 11 b)) \<and> b ! 13 = CHR '':''
      \<and> list_all is_digit (take 2 (drop 14 b)) \<and> b ! 16 = CHR '':''
      \<and> list_all is_digit (take 2 (drop 17 b)))"

section \<open>The run state\<close>

text \<open>The global dictionary \<open>extraction_status\<close>.\<close>

record extraction_status =
  running :: bool
  progress :: nat
  current_category :: string
  total_categories :: nat
  processed_categories :: nat
  total_properties :: nat
  logs :: "string list"
  files :: "string list"
  start_time :: "string option"
  end_time :: "string option"
  output_dir :: "string option"
  error :: "string option"

definition initial_status :: extraction_status where
  "initial_status =
     \<lparr>running = False, progress = 0, current_category = [], total_categories = 0,
      processed_categories = 0, total_properties = 0, logs = [], files = [],
      start_time = None, end_time = None, output_dir = None, error = None\<rparr>"

text \<open>
  Everything a run mutates: the status dictionary, the global pause flag, the fields of
  the extractor object (\<open>seen_ids\<close>, \<open>saved_files\<close>, \<open>total_properties\<close>, \<open>output_dir\<close>) and
  the files written to the output directory, as name and content, newest last.
\<close>

record world =
  status :: extraction_status
  extraction_paused :: bool
  seen_ids :: "string set"
  saved_files :: "string list"
  self_total_properties :: nat
  self_output_dir :: string
  disk :: "(string \<times> string) list"

section \<open>What the program reads from outside\<close>

record response =
  status_code :: nat
  content :: string
  body_text :: string
  http_error :: string

text \<open>
  Decompressing a body: the text, or the \<open>OSError\<close>/\<open>BadGzipFile\<close> of a body that is not
  gzip, or another exception (a truncated stream, bytes that are not UTF-8) with its text.
\<close>

datatype gz_result = Gz_text string | Not_gzip | Gz_error string

datatype element = Element (tag: string) (elem_text: "string option") (children: "element list")

text \<open>
  The libraries and the machine, as given: the HTTP client (\<open>Inl\<close> is the text of the
  exception \<open>get\<close> raises), \<open>gzip\<close>, the XML parser (\<open>Inl\<close> is the text of its
  \<open>ParseError\<close>), the zone table, the clock in the two formats the program prints, the
  seconds a run took, the outcome of creating the output directory and of writing a file
  (\<open>Some\<close> is the text of the exception), \<open>json.dump\<close>, and the floating-point
  arithmetic of the progress figure, \<open>int((current / total) * 100)\<close>, which can round one
  below the exact quotient.
\<close>

record env =
  http_get :: "string \<Rightarrow> string + response"
  gunzip :: "string \<Rightarrow> gz_result"
  fromstring :: "string \<Rightarrow> string + element"
  est_tz :: tz
  now_stamp :: string
  now_clock :: string
  now_iso :: string
  execution_time :: nat
  makedirs_error :: "string \<Rightarrow> string option"
  write_error :: "string \<Rightarrow> string option"
  json_dump :: "(string \<times> string option) list list \<Rightarrow> string"
  percent :: "nat \<Rightarrow> nat \<Rightarrow> nat"

text \<open>\<open>raise_for_status\<close> raises for the client and server errors, 400 to 599.\<close>

definition raise_for_status :: "response \<Rightarrow> bool" where
  "raise_for_status r = (400 \<le> status_code r \<and> status_code r < 600)"

section \<open>Logging\<close>

text \<open>
  \<open>WebUILogger.emit\<close> on the formatted record: the entry is stamped, appended, and the
  list is cut to its last 200 entries.
\<close>

definition emit :: "env \<Rightarrow> string \<Rightarrow> extraction_status \<Rightarrow> extraction_status" where
  "emit e log_entry st =
     (let formatted_log = ''['' @ now_clock e @ ''] '' @ log_entry;
          l = logs st @ [formatted_log]
      in st\<lparr>logs := (if length l > 200 then drop (length l - 200) l else l)\<rparr>)"

text \<open>
  The logger of the extractor at level INFO, in web mode (the only mode that constructs an
  extractor): of its three handlers only the web handler writes to the run state.
  Messages at level DEBUG are dropped by the logger.
\<close>

definition logger_info :: "env \<Rightarrow> string \<Rightarrow> world \<Rightarrow> world" where
  "logger_info e msg w = w\<lparr>status := emit e (''INFO - '' @ msg) (status w)\<rparr>"

definition logger_error :: "env \<Rightarrow> string \<Rightarrow> world \<Rightarrow> world" where
  "logger_error e msg w = w\<lparr>status := emit e (''ERROR - '' @ msg) (status w)\<rparr>"

function string_of_nat :: "nat \<Rightarrow> string" where
  "string_of_nat n =
     (if n < 10 then [char_of (48 + n)]
      else string_of_nat (n div 10) @ [char_of (48 + n mod 10)])"
  by pat_completeness auto
termination
  by (relation "measure id") auto

declare string_of_nat.simps [simp del]

text \<open>The format \<open>{n:,}\<close>: groups of three digits from the right.\<close>

function group_thousands :: "string \<Rightarrow> string" where
  "group_thousands ds =
     (if length ds \<le> 3 then ds
      else group_thousands (take (length ds - 3) ds) @ '','' @ drop (length ds - 3) ds)"
  by pat_completeness auto
termination
  by (relation "measure length") auto

declare group_thousands.simps [simp del]

text \<open>The check mark U+2713 of the log messages, as its UTF-8 bytes.\<close>

definition check_mark :: string where
  "check_mark = [CHR 0xE2, CHR 0x9C, CHR 0x93]"

section \<open>Downloading and reading a sitemap\<close>

text \<open>\<open>download_sitemap\<close>: the content, or \<open>None\<close> with an error logged.\<close>

definition download_sitemap :: "env \<Rightarrow> string \<Rightarrow> world \<Rightarrow> string option \<times> world" where
  "download_sitemap e url w =
     (let failed = (\<lambda>msg. (None, logger_error e (''Failed to download sitemap '' @ url @ '': '' @ msg) w))
      in case http_get e url of
           Inl msg \<Rightarrow> failed msg
         | Inr r \<Rightarrow>
             if raise_for_status r then failed (http_error r)
             else (case gunzip e (content r) of
                     Gz_text c \<Rightarrow> (Some c, w)
                   | Not_gzip \<Rightarrow> (Some (body_text r), w)
                   | Gz_error msg \<Rightarrow> failed msg))"

definition ns_tag :: "string \<Rightarrow> string" where
  "ns_tag name = ''{http://www.sitemaps.org/schemas/sitemap/0.9}'' @ name"

text \<open>\<open>findall\<close> and \<open>find\<close> with a path of one namespaced tag: the direct children.\<close>

definition findall :: "string \<Rightarrow> element \<Rightarrow> element list" where
  "findall name el = filter (\<lambda>c. tag c = ns_tag name) (children el)"

definition find_elem :: "string \<Rightarrow> element \<Rightarrow> element option" where
  "find_elem name el = (case findall name el of [] \<Rightarrow> None | c # _ \<Rightarrow> Some c)"

record listing = parsed_url +
  listing_url :: string
  last_modified :: "string option"
  last_modified_est :: "aware_datetime option"

text \<open>
  The body of the loop of \<open>extract_listings_from_sitemap\<close> for one \<open><url>\<close> element.
  The text of an empty \<open><loc>\<close> is Python's \<open>None\<close>, which the decoder answers with a
  failure through its exception handler.
\<close>

definition process_url_elem :: "env \<Rightarrow> element \<Rightarrow> listing list \<times> world \<Rightarrow> listing list \<times> world" where
  "process_url_elem e url_elem lw =
     (let (listings, w) = lw in
      case find_elem ''loc'' url_elem of
        None \<Rightarrow> (listings, w)
      | Some loc \<Rightarrow>
          (let last_modified_utc =
                 (case find_elem ''lastmod'' url_elem of
                    None \<Rightarrow> Some []
                  | Some lastmod \<Rightarrow> elem_text lastmod);
               last_modified_est = convert_utc_to_est (est_tz e) last_modified_utc
           in case elem_text loc of
                None \<Rightarrow> (listings, w)
              | Some url \<Rightarrow>
                  (case parse_listing_url url of
                     None \<Rightarrow> (listings, w)
                   | Some parsed \<Rightarrow>
                       if property_id parsed \<in> seen_ids w then (listings, w)
                       else (listings @
                               [\<lparr>property_id = property_id parsed,
                                 address = address parsed,
                                 city = city parsed,
                                 state = state parsed,
                                 zipcode = zipcode parsed,
                                 listing_url = url,
                                 last_modified = last_modified_utc,
                                 last_modified_est = last_modified_est\<rparr>],
                             w\<lparr>seen_ids := insert (property_id parsed) (seen_ids w)\<rparr>))))"

text \<open>One turn of the loop, with the progress line every 10000 URLs.\<close>

definition loop_turn :: "env \<Rightarrow> nat \<Rightarrow> nat \<Rightarrow> element \<Rightarrow> listing list \<times> world \<Rightarrow> listing list \<times> world" where
  "loop_turn e total_urls idx url_elem lw =
     (let (listings, w) = lw;
          w1 = (if idx mod 10000 = 0
                then logger_info e (''Processed '' @ string_of_nat idx @ ''/''
                                      @ string_of_nat total_urls @ '' URLs...'') w
                else w)
      in process_url_elem e url_elem (listings, w1))"

text \<open>The loop over the \<open><url>\<close> elements; the index starts at 1.\<close>

fun extract_loop :: "env \<Rightarrow> nat \<Rightarrow> nat \<Rightarrow> element list \<Rightarrow> listing list \<times> world \<Rightarrow> listing list \<times> world" where
  "extract_loop e total_urls idx [] lw = lw"
| "extract_loop e total_urls idx (url_elem # rest) lw =
     extract_loop e total_urls (Suc idx) rest (loop_turn e total_urls idx url_elem lw)"

text \<open>
  \<open>extract_listings_from_sitemap\<close>: \<open>Inl\<close> is the \<open>ParseError\<close> of \<open>ET.fromstring\<close>, which
  the function does not catch, with the state as the exception leaves it.
\<close>

definition extract_listings_from_sitemap :: "env \<Rightarrow> string \<Rightarrow> world \<Rightarrow> (string \<times> world) + (listing list \<times> world)" where
  "extract_listings_from_sitemap e sitemap_url w =
     (case download_sitemap e sitemap_url w of
        (None, w1) \<Rightarrow> Inr ([], w1)
      | (Some c, w1) \<Rightarrow>
          if c = [] then Inr ([], w1)
          else (case fromstring e c of
                  Inl msg \<Rightarrow> Inl (msg, w1)
                | Inr root \<Rightarrow>
                    (let urls = findall ''url'' root;
                         total_urls = length urls;
                         w2 = logger_info e (''Processing '' @ string_of_nat total_urls
                                               @ '' URLs from sitemap...'') w1;
                         (listings, w3) = extract_loop e total_urls 1 urls ([], w2)
                     in Inr (listings,
                             logger_info e (check_mark @ '' Extracted ''
                               @ string_of_nat (length listings) @ '' unique listings'') w3))))"

section \<open>Writing the output\<close>

definition pad2 :: "nat \<Rightarrow> string" where
  "pad2 n = (if n < 10 then ''0'' else []) @ string_of_nat n"

text \<open>
  \<open>strftime('%Y-%m-%d %H:%M:%S %Z')\<close>. The C library of Linux prints the year of \<open>%Y\<close>
  as a plain decimal number, without leading zeros: the year 999 is \<open>999\<close>. The other
  fields are padded to two digits.
\<close>

definition strftime :: "aware_datetime \<Rightarrow> string" where
  "strftime d =
     string_of_nat (year d) @ ''-'' @ pad2 (month d) @ ''-'' @ pad2 (day d) @ '' ''
       @ pad2 (hour d) @ '':'' @ pad2 (minute d) @ '':'' @ pad2 (second d) @ '' '' @ tzname d"

definition fieldnames :: "string list" where
  "fieldnames = [''property_id'', ''listing_url'', ''address'', ''city'', ''state'', ''zipcode'',
             ''last_modified'', ''last_modified_est'']"

text \<open>
  The value a row holds for a field, as the writer prints it: \<open>None\<close> is printed as the
  empty string, a local timestamp is formatted first.
\<close>

definition row_value :: "listing \<Rightarrow> string \<Rightarrow> string" where
  "row_value l field =
     (if field = ''property_id'' then property_id l
      else if field = ''listing_url'' then listing_url l
      else if field = ''address'' then address l
      else if field = ''city'' then city l
      else if field = ''state'' then state l
      else if field = ''zipcode'' then zipcode l
      else if field = ''last_modified'' then (case last_modified l of None \<Rightarrow> [] | Some t \<Rightarrow> t)
      else if field = ''last_modified_est''
      then (case last_modified_est l of None \<Rightarrow> [] | Some d \<Rightarrow> strftime d)
      else [])"

text \<open>
  The \<open>csv\<close> writer in its default dialect: a field is quoted when it holds a comma, a
  quote or a line break, quotes are doubled, a row ends with CR LF.
\<close>

definition csv_special :: "char \<Rightarrow> bool" where
  "csv_special c = (c = CHR '','' \<or> c = CHR 0x22 \<or> c = CHR 0x0D \<or> c = CHR 0x0A)"

definition csv_field :: "string \<Rightarrow> string" where
  "csv_field v =
     (if list_ex csv_special v
      then [CHR 0x22] @ concat (map (\<lambda>c. if c = CHR 0x22 then [c, c] else [c]) v) @ [CHR 0x22]
      else v)"

definition csv_line :: "string list \<Rightarrow> string" where
  "csv_line cells = py_join '','' (map csv_field cells) @ [CHR 0x0D, CHR 0x0A]"

definition csv_rows :: "listing list \<Rightarrow> string list list" where
  "csv_rows listings = fieldnames # map (\<lambda>l. map (row_value l) fieldnames) listings"

definition csv_text :: "listing list \<Rightarrow> string" where
  "csv_text listings = concat (map csv_line (csv_rows listings))"

text \<open>Writing a file that opened: it is on disk, tracked, and shown in the run state.\<close>

definition file_saved :: "string \<Rightarrow> string \<Rightarrow> world \<Rightarrow> world" where
  "file_saved filename text_written w =
     w\<lparr>disk := disk w @ [(filename, text_written)],
       saved_files := saved_files w @ [filename],
       status := (status w)\<lparr>files := files (status w) @ [filename]\<rparr>\<rparr>"

text \<open>\<open>save_to_csv\<close>: the name of the file written, or \<open>None\<close>.\<close>

definition save_to_csv :: "env \<Rightarrow> listing list \<Rightarrow> string \<Rightarrow> world \<Rightarrow> string option \<times> world" where
  "save_to_csv e listings category w =
     (if listings = [] then (None, w)
      else (let filename = ''listings_'' @ category @ ''_'' @ now_stamp e @ ''.csv'' in
            case write_error e filename of
              Some msg \<Rightarrow> (None, logger_error e (''Failed to save CSV file: '' @ msg) w)
            | None \<Rightarrow>
                (Some filename,
                 logger_info e (check_mark @ '' Saved '' @ string_of_nat (length listings)
                                  @ '' records to CSV: '' @ filename)
                   (file_saved filename (csv_text listings) w))))"

text \<open>The dictionary \<open>save_to_json\<close> hands to \<open>json.dump\<close> for a listing.\<close>

definition json_item :: "listing \<Rightarrow> (string \<times> string option) list" where
  "json_item l =
     [(''property_id'', Some (property_id l)),
      (''listing_url'', Some (listing_url l)),
      (''address'', Some (address l)),
      (''city'', Some (city l)),
      (''state'', Some (state l)),
      (''zipcode'', Some (zipcode l)),
      (''last_modified'', last_modified l),
      (''last_modified_est'', map_option strftime (last_modified_est l))]"

definition save_to_json :: "env \<Rightarrow> listing list \<Rightarrow> string \<Rightarrow> world \<Rightarrow> string option \<times> world" where
  "save_to_json e listings category w =
     (if listings = [] then (None, w)
      else (let filename = ''listings_'' @ category @ ''_'' @ now_stamp e @ ''.json'' in
            case write_error e filename of
              Some msg \<Rightarrow> (None, logger_error e (''Failed to save JSON file: '' @ msg) w)
            | None \<Rightarrow>
                (Some filename,
                 logger_info e (check_mark @ '' Saved '' @ string_of_nat (length listings)
                                  @ '' records to JSON: '' @ filename)
                   (file_saved filename (json_dump e (map json_item listings)) w))))"

section \<open>The run\<close>

definition rule_line :: "nat \<Rightarrow> string" where
  "rule_line n = replicate n (CHR ''='')"

text \<open>
  The first part of \<open>process_sitemap\<close> past the pause and stop checks: the job is
  announced in the log and shown in the run state.
\<close>

definition begin_job :: "env \<Rightarrow> string \<Rightarrow> nat \<Rightarrow> nat \<Rightarrow> world \<Rightarrow> world" where
  "begin_job e category current total_n w =
     (let w1 = logger_info e (newline # rule_line 50) w;
          w2 = logger_info e (''['' @ string_of_nat current @ ''/'' @ string_of_nat total_n
                                @ ''] Processing: '' @ category) w1;
          w3 = logger_info e (rule_line 50) w2
      in w3\<lparr>status := (status w3)\<lparr>current_category := category,
                                       processed_categories := current,
                                       progress := percent e current total_n\<rparr>\<rparr>)"

text \<open>The last part: the listings are saved in the configured format and counted.\<close>

definition end_job :: "env \<Rightarrow> string \<Rightarrow> listing list \<Rightarrow> string \<Rightarrow> world \<Rightarrow> world" where
  "end_job e output_format listings category w =
     (let w1 = (if output_format = ''csv'' then snd (save_to_csv e listings category w)
                else if output_format = ''json'' then snd (save_to_json e listings category w)
                else w);
          k = self_total_properties w1 + length listings
      in w1\<lparr>self_total_properties := k,
             status := (status w1)\<lparr>total_properties := k\<rparr>\<rparr>)"

text \<open>
  What \<open>process_sitemap\<close> does once it is past the pause and stop checks. \<open>Inl\<close> is an
  exception that leaves the function, with the state it leaves behind.
\<close>

definition process_running :: "env \<Rightarrow> string \<Rightarrow> string \<Rightarrow> nat \<Rightarrow> nat \<Rightarrow> world \<Rightarrow> (string \<times> world) + world" where
  "process_running e output_format sitemap_url current total_n w =
     (let category = py_replace ''.xml.gz'' [] (last (py_split (CHR ''/'') sitemap_url))
      in case extract_listings_from_sitemap e sitemap_url (begin_job e category current total_n w) of
           Inl x \<Rightarrow> Inl x
         | Inr (listings, w1) \<Rightarrow> Inr (end_job e output_format listings category w1))"

text \<open>
  \<open>process_sitemap\<close>. Nothing else runs in this model, so the flags do not change while
  the function waits: paused and running it never returns, which is \<open>None\<close>; paused and
  stopped it returns after the first wait; stopped it returns at once.
\<close>

definition process_sitemap :: "env \<Rightarrow> string \<Rightarrow> string \<Rightarrow> nat \<Rightarrow> nat \<Rightarrow> world \<Rightarrow> ((string \<times> world) + world) option" where
  "process_sitemap e output_format sitemap_url current total_n w =
     (if extraction_paused w
      then (if running (status w) then None else Some (Inr w))
      else if \<not> running (status w) then Some (Inr w)
      else Some (process_running e output_format sitemap_url current total_n w))"

text \<open>
  One job of \<open>run\<close>: the task, and the handler around \<open>future.result()\<close> that logs an
  exception of the task and goes on.
\<close>

definition run_job :: "env \<Rightarrow> string \<Rightarrow> nat \<Rightarrow> nat \<Rightarrow> string \<Rightarrow> world \<Rightarrow> world option" where
  "run_job e output_format total_n current url w =
     (case process_sitemap e output_format url current total_n w of
        None \<Rightarrow> None
      | Some (Inr w1) \<Rightarrow> Some w1
      | Some (Inl (msg, w1)) \<Rightarrow> Some (logger_error e (''Error processing sitemap: '' @ msg) w1))"

text \<open>
  The jobs of a run, one after the other in the order of the list; job \<open>i\<close> of the list
  is submitted with the number \<open>i + 1\<close>.
\<close>

fun run_jobs :: "env \<Rightarrow> string \<Rightarrow> nat \<Rightarrow> nat \<Rightarrow> string list \<Rightarrow> world \<Rightarrow> world option" where
  "run_jobs e output_format total_n i [] w = Some w"
| "run_jobs e output_format total_n i (url # urls) w =
     (case run_job e output_format total_n (Suc i) url w of
        None \<Rightarrow> None
      | Some w1 \<Rightarrow> run_jobs e output_format total_n (Suc i) urls w1)"

definition to_upper :: "char \<Rightarrow> char" where
  "to_upper c = (if is_lower c then char_of ((of_char c :: nat) - 32) else c)"

definition log_banner :: "env \<Rightarrow> string \<Rightarrow> nat \<Rightarrow> world \<Rightarrow> world" where
  "log_banner e output_format max_workers w =
     (let w1 = logger_info e (rule_line 60) w;
          w2 = logger_info e ''Real Estate Listing Metadata Extraction'' w1;
          w3 = logger_info e (rule_line 60) w2;
          w4 = logger_info e (''Output format: '' @ map to_upper output_format) w3;
          w5 = logger_info e (''Output directory: '' @ self_output_dir w4) w4
      in logger_info e (''Concurrent workers: '' @ string_of_nat max_workers) w5)"

definition log_summary :: "env \<Rightarrow> world \<Rightarrow> world" where
  "log_summary e w =
     (let w1 = logger_info e (newline # rule_line 60) w;
          w2 = logger_info e ''EXTRACTION COMPLETE!'' w1;
          w3 = logger_info e (''Execution time: '' @ string_of_nat (execution_time e div 60) @ ''m ''
                                @ string_of_nat (execution_time e mod 60) @ ''s'') w2;
          w4 = logger_info e (''Total listings extracted: ''
                                @ group_thousands (string_of_nat (self_total_properties w3))) w3;
          w5 = logger_info e (''Total files created: '' @ string_of_nat (length (saved_files w4))) w4
      in logger_info e (rule_line 60) w5)"

text \<open>\<open>run\<close>, in web mode.\<close>

definition run :: "env \<Rightarrow> string \<Rightarrow> nat \<Rightarrow> string list \<Rightarrow> world \<Rightarrow> world option" where
  "run e output_format max_workers sitemap_urls w =
     (let w1 = w\<lparr>status := (status w)\<lparr>start_time := Some (now_iso e)\<rparr>\<rparr>;
          w2 = log_banner e output_format max_workers w1
      in if sitemap_urls = []
         then Some (logger_error e ''No sitemaps provided for extraction!'' w2)
         else (let total_sitemaps = length sitemap_urls;
                   w3 = w2\<lparr>status := (status w2)\<lparr>total_categories := total_sitemaps\<rparr>\<rparr>;
                   w4 = logger_info e (''Processing '' @ string_of_nat total_sitemaps
                                         @ '' sitemaps...'' @ [newline]) w3
               in case run_jobs e output_format total_sitemaps 0 sitemap_urls w4 of
                    None \<Rightarrow> None
                  | Some w5 \<Rightarrow>
                      (let w6 = log_summary e w5
                       in Some (w6\<lparr>status := (status w6)\<lparr>end_time := Some (now_iso e),
                                                          running := False\<rparr>\<rparr>))))"

section \<open>The control surface\<close>

definition append_log :: "string \<Rightarrow> world \<Rightarrow> world" where
  "append_log entry w = w\<lparr>status := (status w)\<lparr>logs := logs (status w) @ [entry]\<rparr>\<rparr>"

definition pause_extraction :: "world \<Rightarrow> world" where
  "pause_extraction w = append_log ''[PAUSED BY USER]'' (w\<lparr>extraction_paused := True\<rparr>)"

definition resume_extraction :: "world \<Rightarrow> world" where
  "resume_extraction w = append_log ''[RESUMED BY USER]'' (w\<lparr>extraction_paused := False\<rparr>)"

definition stop_extraction :: "world \<Rightarrow> world" where
  "stop_extraction w =
     append_log ''[STOPPED BY USER]'' (w\<lparr>status := (status w)\<lparr>running := False\<rparr>\<rparr>)"

record config =
  cfg_output_dir :: string
  cfg_sitemaps :: "string list"
  cfg_output_format :: string
  cfg_workers :: nat

text \<open>
  The constructor of the extractor: the output directory is created, the tracking fields
  start empty, the log file is announced, the directory is shown in the run state.
  \<open>Inl\<close> is the exception of \<open>os.makedirs\<close>.
\<close>

definition new_extractor :: "env \<Rightarrow> config \<Rightarrow> world \<Rightarrow> string + world" where
  "new_extractor e c w =
     (case makedirs_error e (cfg_output_dir c) of
        Some msg \<Rightarrow> Inl msg
      | None \<Rightarrow>
          (let w1 = w\<lparr>saved_files := [], self_total_properties := 0,
                      self_output_dir := cfg_output_dir c, seen_ids := {}\<rparr>;
               w2 = logger_info e (''Log file created: '' @ cfg_output_dir c @ ''/extraction_''
                                     @ now_stamp e @ ''.log'') w1
           in Inr (w2\<lparr>status := (status w2)\<lparr>output_dir := Some (cfg_output_dir c)\<rparr>\<rparr>)))"

text \<open>
  \<open>start_extraction\<close> with the thread it starts run to its end. \<open>Inl\<close> is the answer
  "Extraction already running".
\<close>

definition start_extraction :: "env \<Rightarrow> config \<Rightarrow> world \<Rightarrow> (string + world) option" where
  "start_extraction e c w =
     (if running (status w) then Some (Inl ''Extraction already running'')
      else (let w1 = w\<lparr>status := (status w)\<lparr>running := True, error := None, logs := [],
                                              files := [], progress := 0,
                                              total_properties := 0\<rparr>\<rparr>
            in case new_extractor e c w1 of
                 Inl msg \<Rightarrow>
                   (let w2 = append_log (''[FATAL ERROR] '' @ msg) w1
                    in Some (Inr (w2\<lparr>status := (status w2)\<lparr>error := Some msg, running := False\<rparr>\<rparr>)))
               | Inr w2 \<Rightarrow>
                   map_option Inr (run e (cfg_output_format c) (cfg_workers c) (cfg_sitemaps c) w2)))"

section \<open>Child sitemaps\<close>

text \<open>
  The inner \<open>try\<close> of \<open>get_sitemap_children\<close>: a body that does not decompress, for
  whatever reason, is read as plain text.
\<close>

definition decompressed :: "env \<Rightarrow> response \<Rightarrow> string" where
  "decompressed e r =
     (case gunzip e (content r) of
        Gz_text t \<Rightarrow> t
      | Not_gzip \<Rightarrow> body_text r
      | Gz_error msg \<Rightarrow> body_text r)"

text \<open>
  \<open>get_sitemap_children\<close>. The text of a \<open><loc>\<close> is \<open>None\<close> when the element is empty.
  Every exception of the outer \<open>try\<close> ends in the empty list.
\<close>

definition get_sitemap_children :: "env \<Rightarrow> string \<Rightarrow> string option list" where
  "get_sitemap_children e parent_url =
     (case http_get e parent_url of
        Inl msg \<Rightarrow> []
      | Inr r \<Rightarrow>
          if raise_for_status r then []
          else (case fromstring e (decompressed e r) of
                  Inl msg \<Rightarrow> []
                | Inr root \<Rightarrow>
                    map elem_text (List.map_filter (find_elem ''loc'') (findall ''sitemap'' root))))"

section \<open>Two workers at the duplicate check\<close>

text \<open>
  The duplicate check of \<open>extract_listings_from_sitemap\<close> is two statements with nothing
  that holds other threads off: the test \<open>property_id in self.seen_ids\<close>, and later
  \<open>self.seen_ids.add\<close> with the append to the worker's own list. A worker is at the test,
  between the two, or past them, having stored or skipped its entry.
\<close>

datatype pc = At_check | At_add | Stored | Skipped

datatype worker = Worker_1 | Worker_2

record race =
  shared_seen :: "string set"
  pc_of :: "worker \<Rightarrow> pc"
  listings_of :: "worker \<Rightarrow> string list"

definition race_start :: race where
  "race_start = \<lparr>shared_seen = {}, pc_of = (\<lambda>t. At_check), listings_of = (\<lambda>t. [])\<rparr>"

text \<open>One statement of worker \<open>t\<close>, whose entry has the property id \<open>pid t\<close>.\<close>

definition race_step :: "(worker \<Rightarrow> string) \<Rightarrow> worker \<Rightarrow> race \<Rightarrow> race" where
  "race_step pid t r =
     (case pc_of r t of
        At_check \<Rightarrow>
          r\<lparr>pc_of := (pc_of r)(t := (if pid t \<in> shared_seen r then Skipped else At_add))\<rparr>
      | At_add \<Rightarrow>
          r\<lparr>shared_seen := insert (pid t) (shared_seen r),
            listings_of := (listings_of r)(t := listings_of r t @ [pid t]),
            pc_of := (pc_of r)(t := Stored)\<rparr>
      | Stored \<Rightarrow> r
      | Skipped \<Rightarrow> r)"

text \<open>A schedule is the order in which the workers get to run a statement.\<close>

definition schedule :: "(worker \<Rightarrow> string) \<Rightarrow> worker list \<Rightarrow> race \<Rightarrow> race" where
  "schedule pid ts r = foldl (\<lambda>r t. race_step pid t r) r ts"

section \<open>Notions the properties are stated with\<close>

text \<open>The state of the program before any run.\<close>

definition initial_world :: world where
  "initial_world =
     \<lparr>status = initial_status, extraction_paused = False, seen_ids = {}, saved_files = [],
      self_total_properties = 0, self_output_dir = [], disk = []\<rparr>"

text \<open>The state with its log left out: what two states that differ in the log only share.\<close>

definition without_logs :: "world \<Rightarrow> world" where
  "without_logs w = w\<lparr>status := (status w)\<lparr>logs := []\<rparr>\<rparr>"

text \<open>
  The raw timestamp of a \<open><url>\<close> element as the loop reads it: the empty string without
  a \<open><lastmod>\<close> child, else the text of the child.
\<close>

definition lastmod_raw :: "element \<Rightarrow> string option" where
  "lastmod_raw url_elem =
     (case find_elem ''lastmod'' url_elem of
        None \<Rightarrow> Some []
      | Some lastmod \<Rightarrow> elem_text lastmod)"

text \<open>
  The entry a \<open><url>\<close> element offers to the store: the record the loop builds when the
  element has a \<open><loc>\<close> whose URL decodes, whatever has been seen before.
\<close>

definition decoded :: "env \<Rightarrow> element \<Rightarrow> listing option" where
  "decoded e url_elem =
     (case find_elem ''loc'' url_elem of
        None \<Rightarrow> None
      | Some loc \<Rightarrow>
          (case elem_text loc of
             None \<Rightarrow> None
           | Some url \<Rightarrow>
               (case parse_listing_url url of
                  None \<Rightarrow> None
                | Some parsed \<Rightarrow>
                    Some \<lparr>property_id = property_id parsed,
                          address = address parsed,
                          city = city parsed,
                          state = state parsed,
                          zipcode = zipcode parsed,
                          listing_url = url,
                          last_modified = lastmod_raw url_elem,
                          last_modified_est = convert_utc_to_est (est_tz e) (lastmod_raw url_elem)\<rparr>)))"

definition offered :: "env \<Rightarrow> element list \<Rightarrow> listing list" where
  "offered e urls = List.map_filter (decoded e) urls"

text \<open>
  First-seen-wins, in the words of the specification: of the entries offered, in their
  order, exactly those whose property id is neither in the set seen before nor the id of
  an earlier entry.
\<close>

definition first_seen :: "string set \<Rightarrow> listing list \<Rightarrow> listing list" where
  "first_seen seen xs =
     map (\<lambda>i. xs ! i)
       (filter (\<lambda>i. property_id (xs ! i) \<notin> seen \<union> property_id ` set (take i xs))
          [0..<length xs])"

text \<open>
  An environment for examples: the clock stands still, no body is gzip, every
  directory and file can be written, the progress figure is the exact quotient.
\<close>

definition static_env :: "(string \<Rightarrow> string + response) \<Rightarrow> (string \<Rightarrow> string + element) \<Rightarrow> env" where
  "static_env g p =
     \<lparr>http_get = g, gunzip = (\<lambda>b. Not_gzip), fromstring = p, est_tz = us_eastern,
      now_stamp = ''20240115_120000'', now_clock = ''12:00:00'',
      now_iso = ''2024-01-15T12:00:00'', execution_time = 0,
      makedirs_error = (\<lambda>d. None), write_error = (\<lambda>f. None), json_dump = (\<lambda>d. []),
      percent = (\<lambda>current total_n. (current * 100) div total_n)\<rparr>"

definition plain_response :: "string \<Rightarrow> response" where
  "plain_response body = \<lparr>status_code = 200, content = body, body_text = body, http_error = []\<rparr>"

definition leaf :: "string \<Rightarrow> string \<Rightarrow> element" where
  "leaf name t = Element (ns_tag name) (Some t) []"

text \<open>What \<open>download_sitemap\<close> returns for a URL; it depends on the outside only.\<close>

definition downloaded :: "env \<Rightarrow> string \<Rightarrow> string option" where
  "downloaded e url =
     (case http_get e url of
        Inl msg \<Rightarrow> None
      | Inr r \<Rightarrow>
          if raise_for_status r then None
          else (case gunzip e (content r) of
                  Gz_text c \<Rightarrow> Some c
                | Not_gzip \<Rightarrow> Some (body_text r)
                | Gz_error msg \<Rightarrow> None))"

text \<open>
  What a job has to offer: the parse error of a content that is malformed XML, or the
  entries of its sitemap, none when nothing was downloaded.
\<close>

definition job_offers :: "env \<Rightarrow> string \<Rightarrow> string + listing list" where
  "job_offers e url =
     (case downloaded e url of
        None \<Rightarrow> Inr []
      | Some c \<Rightarrow>
          if c = [] then Inr []
          else (case fromstring e c of
                  Inl msg \<Rightarrow> Inl msg
                | Inr root \<Rightarrow> Inr (offered e (findall ''url'' root))))"

text \<open>The property ids a job has to offer.\<close>

definition job_ids :: "env \<Rightarrow> string \<Rightarrow> string set" where
  "job_ids e url = (case job_offers e url of Inl msg \<Rightarrow> {} | Inr xs \<Rightarrow> property_id ` set xs)"

text \<open>
  The outputs of a run and what steers it: the two control flags and the error field, the
  store, the files tracked and written, and the counts of records. Left out are the log,
  the progress fields and the times.
\<close>

definition outputs :: "world \<Rightarrow> bool \<times> bool \<times> string option \<times> string set \<times> string list \<times> nat
                        \<times> (string \<times> string) list \<times> string list \<times> nat" where
  "outputs w =
     (extraction_paused w, running (status w), error (status w), seen_ids w, saved_files w,
      self_total_properties w, disk w, files (status w), total_properties (status w))"

text \<open>
  An example site: an index with two children that have a \<open><loc>\<close> and one that has
  none; a leaf \<open>a\<close> with a listing, a second listing, the first listing again, an entry
  without \<open><loc>\<close> and an entry whose URL is no listing; a leaf \<open>b\<close> whose body is
  malformed XML; a leaf \<open>c\<close> with the second listing of \<open>a\<close> again and a third one.
\<close>

definition example_index :: element where
  "example_index =
     Element (ns_tag ''sitemapindex'') None
       [Element (ns_tag ''sitemap'') None [leaf ''loc'' ''https://example.com/a.xml.gz''],
        Element (ns_tag ''sitemap'') None [],
        Element (ns_tag ''sitemap'') None [leaf ''loc'' ''https://example.com/c.xml.gz'']]"

definition example_a :: element where
  "example_a =
     Element (ns_tag ''urlset'') None
       [Element (ns_tag ''url'') None
          [leaf ''loc'' ''https://example.com/homedetails/1-Elm-St-Troy-NY-12180/7_zpid/'',
           leaf ''lastmod'' ''yesterday''],
        Element (ns_tag ''url'') None
          [leaf ''loc'' ''https://example.com/homedetails/2-Oak-Ave-Troy-NY-12180/8_zpid/''],
        Element (ns_tag ''url'') None
          [leaf ''loc'' ''https://example.com/homedetails/1-Elm-St-Troy-NY-12180/7_zpid/''],
        Element (ns_tag ''url'') None [leaf ''lastmod'' ''2024-01-15T12:00:00Z''],
        Element (ns_tag ''url'') None [leaf ''loc'' ''https://example.com/about/'']]"

definition example_c :: element where
  "example_c =
     Element (ns_tag ''urlset'') None
       [Element (ns_tag ''url'') None
          [leaf ''loc'' ''https://example.com/homedetails/2-Oak-Ave-Troy-NY-12180/8_zpid/''],
        Element (ns_tag ''url'') None
          [leaf ''loc'' ''https://example.com/homedetails/3-Ash-Rd-Troy-NY-12180/9_zpid/'']]"

definition example_get :: "string \<Rightarrow> string + response" where
  "example_get url =
     (if url = ''https://example.com/index.xml'' then Inr (plain_response ''<index/>'')
      else if url = ''https://example.com/a.xml.gz'' then Inr (plain_response ''<a/>'')
      else if url = ''https://example.com/b.xml.gz'' then Inr (plain_response ''<b'')
      else if url = ''https://example.com/c.xml.gz'' then Inr (plain_response ''<c/>'')
      else Inl ''connection refused'')"

definition example_fromstring :: "string \<Rightarrow> string + element" where
  "example_fromstring s =
     (if s = ''<index/>'' then Inr example_index
      else if s = ''<a/>'' then Inr example_a
      else if s = ''<c/>'' then Inr example_c
      else Inl ''unclosed token: line 1, column 0'')"

definition example_env :: env where
  "example_env = static_env example_get example_fromstring"

text \<open>
  The state in which a run begins: the state before any run, with the running flag set
  by the start request.
\<close>

definition example_started :: world where
  "example_started = initial_world\<lparr>status := initial_status\<lparr>running := True\<rparr>\<rparr>"

text \<open>
  The state at the end of a run: the example run over the leaf \<open>a\<close>, started from the
  state before any run with the configuration the start request carries.
\<close>

definition example_config :: config where
  "example_config =
     \<lparr>cfg_output_dir = ''output'', cfg_sitemaps = [''https://example.com/a.xml.gz''],
      cfg_output_format = ''csv'', cfg_workers = 5\<rparr>"

definition completed_run :: world where
  "completed_run =
     (case start_extraction example_env example_config initial_world of
        Some (Inr w) \<Rightarrow> w
      | _ \<Rightarrow> initial_world)"

text \<open>How a run ended, as the status page shows it: the running flag, the end time, the files.\<close>

definition run_outcome :: "world \<Rightarrow> bool \<times> string option \<times> string list" where
  "run_outcome w = (running (status w), end_time (status w), files (status w))"

text \<open>The example listing with a local timestamp, and one without.\<close>

definition example_listing :: listing where
  "example_listing =
     \<lparr>property_id = ''7'', address = ''1 Elm'', city = ''St Troy'', state = ''NY'',
      zipcode = ''12180'',
      listing_url = ''https://example.com/homedetails/1-Elm-St-Troy-NY-12180/7_zpid/'',
      last_modified = Some ''2024-01-15T12:00:00Z'',
      last_modified_est =
        Some \<lparr>year = 2024, month = 1, day = 15, hour = 7, minute = 0, second = 0,
              utcoffset = - 18000, tzname = ''EST''\<rparr>\<rparr>"

definition example_listing_raw :: listing where
  "example_listing_raw =
     example_listing\<lparr>property_id := ''8'', last_modified := Some ''yesterday'',
                     last_modified_est := None\<rparr>"

section \<open>Properties of the decoder\<close>













text \<open>
  C3, as the code has it. Decoding
  \<open>/homedetails/123-Main-St-Springfield-IL-62701/12345_zpid/\<close> gives the property id
  \<open>12345\<close>, the state \<open>IL\<close> and the zip code \<open>62701\<close>; the city is the last two tokens
  before the state, \<open>St Springfield\<close>, and the address is what precedes them, \<open>123 Main\<close>.
\<close>

theorem parse_listing_url_example:
  "parse_listing_url ''/homedetails/123-Main-St-Springfield-IL-62701/12345_zpid/'' =
     Some \<lparr>property_id = ''12345'', address = ''123 Main'', city = ''St Springfield'',
           state = ''IL'', zipcode = ''62701''\<rparr>"
  by code_simp

text \<open>
  C3, as the specification states it: the record with the address \<open>123 Main St\<close> and the
  city \<open>Springfield IL\<close> is not what the decoder returns for that URL.
\<close>

theorem parse_listing_url_example_refuted:
  "parse_listing_url ''/homedetails/123-Main-St-Springfield-IL-62701/12345_zpid/'' \<noteq>
     Some \<lparr>property_id = ''12345'', address = ''123 Main St'', city = ''Springfield IL'',
           state = ''IL'', zipcode = ''62701''\<rparr>"
  by code_simp

text \<open>
  The digits of the pattern are the decimal digits of every script: a segment that ends in
  the Arabic-Indic digits one, two, one, eight, zero has the shape, and is decoded, with
  these digits as the zip code. A superscript two is no decimal digit.
\<close>

lemma parse_listing_url_digits_of_any_script:
  "slug_shape (''1-Elm-St-Troy-NY-'' @ [CHR 0xD9, CHR 0xA1, CHR 0xD9, CHR 0xA2, CHR 0xD9, CHR 0xA1,
                                       CHR 0xD9, CHR 0xA8, CHR 0xD9, CHR 0xA0])
   \<and> parse_listing_url
         (''/homedetails/1-Elm-St-Troy-NY-''
            @ [CHR 0xD9, CHR 0xA1, CHR 0xD9, CHR 0xA2, CHR 0xD9, CHR 0xA1, CHR 0xD9, CHR 0xA8,
               CHR 0xD9, CHR 0xA0] @ ''/7_zpid/'')
       = Some \<lparr>property_id = ''7'', address = ''1 Elm'', city = ''St Troy'', state = ''NY'',
               zipcode = [CHR 0xD9, CHR 0xA1, CHR 0xD9, CHR 0xA2, CHR 0xD9, CHR 0xA1, CHR 0xD9,
                          CHR 0xA8, CHR 0xD9, CHR 0xA0]\<rparr>
   \<and> \<not> slug_shape (''1-Elm-St-Troy-NY-1218'' @ [CHR 0xC2, CHR 0xB2])"
  by code_simp



section \<open>Properties of the duplicate check under two workers\<close>

text \<open>
  C2, at a schedule the code allows. Two workers hold an entry with the same property id
  \<open>12345\<close>. Worker 1 runs the membership test, worker 2 runs the membership test, then
  each runs its insert: both end having stored the entry, each in its own list.
  Run one after the other, the second worker skips.
\<close>

theorem concurrent_check_then_add_stores_twice:
  "pc_of (schedule (\<lambda>t. ''12345'') [Worker_1, Worker_2, Worker_1, Worker_2] race_start) Worker_1 = Stored
   \<and> pc_of (schedule (\<lambda>t. ''12345'') [Worker_1, Worker_2, Worker_1, Worker_2] race_start) Worker_2 = Stored
   \<and> listings_of (schedule (\<lambda>t. ''12345'') [Worker_1, Worker_2, Worker_1, Worker_2] race_start) Worker_1 = [''12345'']
   \<and> listings_of (schedule (\<lambda>t. ''12345'') [Worker_1, Worker_2, Worker_1, Worker_2] race_start) Worker_2 = [''12345'']
   \<and> pc_of (schedule (\<lambda>t. ''12345'') [Worker_1, Worker_1, Worker_2, Worker_2] race_start) Worker_2 = Skipped"
  by code_simp

text \<open>
  C1, on the code. Within one job the loop stores an entry exactly when its property id
  is not in the store, and so do jobs that are run one after the other. But the run hands
  its jobs to a pool of worker threads that share the store, and the test and the insert
  are apart: two workers that each hold an entry with the property id \<open>7\<close>, worker 2
  testing first and worker 1 inserting first, both store it. Two records are stored for
  the one property id offered, and the store holds this id once.
\<close>

theorem first_seen_wins_fails_across_workers:
  "listings_of (schedule (\<lambda>t. ''7'') [Worker_2, Worker_1, Worker_1, Worker_2] race_start) Worker_1
      @ listings_of (schedule (\<lambda>t. ''7'') [Worker_2, Worker_1, Worker_1, Worker_2] race_start) Worker_2
     = [''7'', ''7'']
   \<and> shared_seen (schedule (\<lambda>t. ''7'') [Worker_2, Worker_1, Worker_1, Worker_2] race_start) = {''7''}
   \<and> length (listings_of (schedule (\<lambda>t. ''7'') [Worker_2, Worker_1, Worker_1, Worker_2] race_start) Worker_1
        @ listings_of (schedule (\<lambda>t. ''7'') [Worker_2, Worker_1, Worker_1, Worker_2] race_start) Worker_2)
       \<noteq> card (shared_seen (schedule (\<lambda>t. ''7'') [Worker_2, Worker_1, Worker_1, Worker_2] race_start))"
  by (simp add: schedule_def race_step_def race_start_def)

section \<open>Properties of the time conversion\<close>

lemmas calendar_defs = to_seconds_def ymd2ord_def days_before_year_def days_before_month_def
  days_in_month_def is_leap_def first_sunday_from_def weekday_def Let_def
  DAYS_IN_MONTH_def DAYS_BEFORE_MONTH_def

lemma strptime_noon:
  "strptime ''2024-01-15T12:00:00'' =
     Some \<lparr>year = 2024, month = 1, day = 15, hour = 12, minute = 0, second = 0\<rparr>"
  by code_simp

lemma astimezone_noon:
  "astimezone us_eastern \<lparr>year = 2024, month = 1, day = 15, hour = 12, minute = 0, second = 0\<rparr> =
     Some \<lparr>year = 2024, month = 1, day = 15, hour = 7, minute = 0, second = 0,
           utcoffset = - 18000, tzname = ''EST''\<rparr>"
  by (simp add: astimezone_def us_eastern_def from_seconds_def ord2ymd_def min_seconds_def
        max_seconds_def calendar_defs naive_datetime.extend_def)

text \<open>The loop body, read as: decode the entry, then test and insert.\<close>

lemma process_url_elem_decoded:
  "process_url_elem e el (ls, w) =
     (case decoded e el of
        None \<Rightarrow> (ls, w)
      | Some l \<Rightarrow>
          if property_id l \<in> seen_ids w then (ls, w)
          else (ls @ [l], w\<lparr>seen_ids := insert (property_id l) (seen_ids w)\<rparr>))"
  by (auto simp: process_url_elem_def decoded_def lastmod_raw_def Let_def split: option.splits)

text \<open>
  C6, as the code has it. \<open>2024-01-15T12:00:00Z\<close> converts to 07:00:00 of the same day
  at the offset of minus five hours, named EST. Python's \<open>None\<close>, the empty string and
  every string that \<open>strptime\<close> rejects once every \<open>Z\<close> is removed give no local
  timestamp. A record that the loop stores carries the raw string of its element
  unchanged, next to whatever the conversion of that string gave.
\<close>

theorem convert_utc_to_est_conversion:
  "convert_utc_to_est us_eastern (Some ''2024-01-15T12:00:00Z'') =
     Some \<lparr>year = 2024, month = 1, day = 15, hour = 7, minute = 0, second = 0,
           utcoffset = - 18000, tzname = ''EST''\<rparr>
   \<and> convert_utc_to_est z None = None
   \<and> convert_utc_to_est z (Some []) = None
   \<and> (strptime (py_replace ''Z'' [] s) = None \<longrightarrow> convert_utc_to_est z (Some s) = None)
   \<and> (process_url_elem e el (ls, w) = (ls', w') \<and> ls' \<noteq> ls \<longrightarrow>
        (\<exists>l. ls' = ls @ [l] \<and> last_modified l = lastmod_raw el
             \<and> last_modified_est l = convert_utc_to_est (est_tz e) (lastmod_raw el)))"
proof -
  have r: "py_replace ''Z'' [] ''2024-01-15T12:00:00Z'' = ''2024-01-15T12:00:00''" by code_simp
  have a: "convert_utc_to_est us_eastern (Some ''2024-01-15T12:00:00Z'') =
     Some \<lparr>year = 2024, month = 1, day = 15, hour = 7, minute = 0, second = 0,
           utcoffset = - 18000, tzname = ''EST''\<rparr>"
    unfolding convert_utc_to_est_def
    by (simp only: r strptime_noon astimezone_noon option.case list.distinct if_False)
  have b: "convert_utc_to_est z None = None" "convert_utc_to_est z (Some []) = None"
    by (simp_all add: convert_utc_to_est_def)
  have c: "strptime (py_replace ''Z'' [] s) = None \<longrightarrow> convert_utc_to_est z (Some s) = None"
    by (simp add: convert_utc_to_est_def)
  have d: "process_url_elem e el (ls, w) = (ls', w') \<and> ls' \<noteq> ls \<longrightarrow>
        (\<exists>l. ls' = ls @ [l] \<and> last_modified l = lastmod_raw el
             \<and> last_modified_est l = convert_utc_to_est (est_tz e) (lastmod_raw el))"
    by (auto simp: process_url_elem_decoded decoded_def split: option.splits if_splits)
  from a b c d show ?thesis by blast
qed

theorem convert_utc_to_est_conversion_witness:
  "strptime (py_replace ''Z'' [] ''yesterday'') = None
   \<and> convert_utc_to_est us_eastern (Some ''yesterday'') = None
   \<and> fst (process_url_elem example_env (hd (findall ''url'' example_a)) ([], initial_world)) \<noteq> []
   \<and> map last_modified
        (fst (process_url_elem example_env (hd (findall ''url'' example_a)) ([], initial_world)))
       = [Some ''yesterday'']
   \<and> map last_modified_est
        (fst (process_url_elem example_env (hd (findall ''url'' example_a)) ([], initial_world)))
       = [None]"
proof -
  let ?el = "hd (findall ''url'' example_a)"
  obtain ls' w' where p: "process_url_elem example_env ?el ([], initial_world) = (ls', w')"
    by (cases "process_url_elem example_env ?el ([], initial_world)")
  have h1: "strptime (py_replace ''Z'' [] ''yesterday'') = None" by code_simp
  have h2: "fst (process_url_elem example_env ?el ([], initial_world)) \<noteq> []" by code_simp
  have h3: "lastmod_raw ?el = Some ''yesterday''" by code_simp
  have h4: "est_tz example_env = us_eastern" by (simp add: example_env_def static_env_def)
  note T = convert_utc_to_est_conversion[where z = us_eastern and s = "''yesterday''"
      and e = example_env and el = ?el and ls = "[]" and w = initial_world
      and ls' = ls' and w' = w']
  from T h1 have c: "convert_utc_to_est us_eastern (Some ''yesterday'') = None" by blast
  from p h2 have "ls' \<noteq> []" by simp
  with T p obtain l where l: "ls' = [] @ [l]" "last_modified l = lastmod_raw ?el"
    "last_modified_est l = convert_utc_to_est (est_tz example_env) (lastmod_raw ?el)" by blast
  from l p h3 h4 c have "fst (process_url_elem example_env ?el ([], initial_world)) = [l]"
    "last_modified l = Some ''yesterday''" "last_modified_est l = None" by simp_all
  with h1 c show ?thesis by simp
qed

text \<open>
  C6, as the specification states it, fails at \<open>2024-01-15TZ12:00:00\<close>: the string is not
  of the form \<open>YYYY-MM-DDTHH:MM:SS[Z]\<close>, and it converts, because the \<open>Z\<close> is removed
  wherever it stands.
\<close>

theorem malformed_timestamp_converts:
  "\<not> timestamp_form ''2024-01-15TZ12:00:00''
   \<and> convert_utc_to_est us_eastern (Some ''2024-01-15TZ12:00:00'') =
       Some \<lparr>year = 2024, month = 1, day = 15, hour = 7, minute = 0, second = 0,
             utcoffset = - 18000, tzname = ''EST''\<rparr>"
proof -
  have r: "py_replace ''Z'' [] ''2024-01-15TZ12:00:00'' = ''2024-01-15T12:00:00''" by code_simp
  have "convert_utc_to_est us_eastern (Some ''2024-01-15TZ12:00:00'') =
     Some \<lparr>year = 2024, month = 1, day = 15, hour = 7, minute = 0, second = 0,
           utcoffset = - 18000, tzname = ''EST''\<rparr>"
    unfolding convert_utc_to_est_def
    by (simp only: r strptime_noon astimezone_noon option.case list.distinct if_False)
  moreover have "\<not> timestamp_form ''2024-01-15TZ12:00:00''" by code_simp
  ultimately show ?thesis by blast
qed

section \<open>Properties of the log tail and of the control calls\<close>

text \<open>
  C8, on the code. The logging handler leaves at most 200 entries whatever it finds. The
  control calls append without cutting: each leaves one entry more than it found, so
  pausing on a tail of 200 entries leaves 201.
\<close>

theorem log_tail_bound_only_in_emit:
  "length (logs (emit e entry st)) \<le> 200
   \<and> length (logs (status (pause_extraction w))) = Suc (length (logs (status w)))
   \<and> length (logs (status (resume_extraction w))) = Suc (length (logs (status w)))
   \<and> length (logs (status (stop_extraction w))) = Suc (length (logs (status w)))
   \<and> length (logs (status (pause_extraction
        (initial_world\<lparr>status := initial_status\<lparr>logs := replicate 200 ''entry''\<rparr>\<rparr>)))) = 201"
  by (simp add: emit_def Let_def pause_extraction_def resume_extraction_def stop_extraction_def
        append_log_def)

text \<open>
  C9, as the code has it. The three control calls are total functions of the state, so
  none of them fails. A repeated pause, resume or stop leaves every part of the state
  other than the log as the first call left it, the pause flag and the running flag
  among them; so does a stop on a state whose run is over. The log is not left alone:
  after each call its newest entry is the marker of that call.
\<close>

theorem control_calls_repeat:
  "without_logs (pause_extraction (pause_extraction w)) = without_logs (pause_extraction w)
   \<and> without_logs (resume_extraction (resume_extraction w)) = without_logs (resume_extraction w)
   \<and> without_logs (stop_extraction (stop_extraction w)) = without_logs (stop_extraction w)
   \<and> (\<not> running (status w) \<longrightarrow> without_logs (stop_extraction w) = without_logs w)
   \<and> extraction_paused (pause_extraction (pause_extraction w))
   \<and> extraction_paused (pause_extraction w)
   \<and> running (status (pause_extraction (pause_extraction w))) = running (status w)
   \<and> \<not> extraction_paused (resume_extraction (resume_extraction w))
   \<and> \<not> extraction_paused (resume_extraction w)
   \<and> running (status (resume_extraction (resume_extraction w))) = running (status w)
   \<and> \<not> running (status (stop_extraction (stop_extraction w)))
   \<and> \<not> running (status (stop_extraction w))
   \<and> extraction_paused (stop_extraction (stop_extraction w)) = extraction_paused w
   \<and> last (logs (status (pause_extraction w))) = ''[PAUSED BY USER]''
   \<and> last (logs (status (resume_extraction w))) = ''[RESUMED BY USER]''
   \<and> last (logs (status (stop_extraction w))) = ''[STOPPED BY USER]''"
  by (simp add: pause_extraction_def resume_extraction_def stop_extraction_def append_log_def
        without_logs_def)

text \<open>
  The state at the end of the example run is a state whose run is over: the run has set
  its end time and has written its file, and the running flag is off.
\<close>

theorem control_calls_repeat_witness:
  "end_time (status completed_run) = Some ''2024-01-15T12:00:00''
   \<and> files (status completed_run) = [''listings_a_20240115_120000.csv'']
   \<and> \<not> running (status completed_run)
   \<and> without_logs (stop_extraction completed_run) = without_logs completed_run
   \<and> last (logs (status (stop_extraction completed_run))) = ''[STOPPED BY USER]''"
proof -
  have "run_outcome completed_run
          = (False, Some ''2024-01-15T12:00:00'', [''listings_a_20240115_120000.csv''])"
    by code_simp
  then have h: "\<not> running (status completed_run)"
    and t: "end_time (status completed_run) = Some ''2024-01-15T12:00:00''"
    and f: "files (status completed_run) = [''listings_a_20240115_120000.csv'']"
    by (simp_all add: run_outcome_def)
  note T = control_calls_repeat[where w = completed_run]
  from T h have "without_logs (stop_extraction completed_run) = without_logs completed_run"
    by blast
  moreover from T have "last (logs (status (stop_extraction completed_run))) = ''[STOPPED BY USER]''"
    by blast
  ultimately show ?thesis using h t f by blast
qed

text \<open>
  C9, as the specification states it, fails: a second pause does not leave the run state
  as the first one left it, the log differs.
\<close>

theorem pause_twice_changes_state:
  "pause_extraction (pause_extraction initial_world) \<noteq> pause_extraction initial_world"
proof
  assume "pause_extraction (pause_extraction initial_world) = pause_extraction initial_world"
  then have "logs (status (pause_extraction (pause_extraction initial_world)))
           = logs (status (pause_extraction initial_world))" by simp
  then show False by (simp add: pause_extraction_def append_log_def)
qed

section \<open>Properties of the child sitemaps\<close>

text \<open>
  C10, as the code has it. \<open>get_sitemap_children\<close> is a total function: a failed request, a
  response with a status from 400 to 599 and a body that does not parse give the empty
  list; a body that parses gives the texts of the \<open><loc>\<close> children of the \<open><sitemap>\<close>
  elements in document order, elements without \<open><loc>\<close> left out. A body that does not
  decompress is not a failure: the text of the response is parsed in its place.
\<close>

theorem get_sitemap_children_total:
  "(http_get e u = Inl msg \<longrightarrow> get_sitemap_children e u = [])
   \<and> (http_get e u = Inr r \<and> raise_for_status r \<longrightarrow> get_sitemap_children e u = [])
   \<and> (http_get e u = Inr r \<and> \<not> raise_for_status r \<and> fromstring e (decompressed e r) = Inl msg
        \<longrightarrow> get_sitemap_children e u = [])
   \<and> (http_get e u = Inr r \<and> \<not> raise_for_status r \<and> fromstring e (decompressed e r) = Inr root
        \<longrightarrow> get_sitemap_children e u
              = map elem_text (List.map_filter (find_elem ''loc'') (findall ''sitemap'' root)))
   \<and> (gunzip e (content r) = Gz_text t \<longrightarrow> decompressed e r = t)
   \<and> (gunzip e (content r) = Not_gzip \<or> gunzip e (content r) = Gz_error msg
        \<longrightarrow> decompressed e r = body_text r)"
  by (auto simp: get_sitemap_children_def decompressed_def)

theorem get_sitemap_children_total_witness:
  "http_get example_env ''https://example.com/missing.xml'' = Inl ''connection refused''
   \<and> get_sitemap_children example_env ''https://example.com/missing.xml'' = []
   \<and> http_get example_env ''https://example.com/index.xml'' = Inr (plain_response ''<index/>'')
   \<and> \<not> raise_for_status (plain_response ''<index/>'')
   \<and> fromstring example_env (decompressed example_env (plain_response ''<index/>'')) = Inr example_index
   \<and> get_sitemap_children example_env ''https://example.com/index.xml''
       = [Some ''https://example.com/a.xml.gz'', Some ''https://example.com/c.xml.gz'']"
proof -
  have h1: "http_get example_env ''https://example.com/missing.xml'' = Inl ''connection refused''"
    by code_simp
  have h2: "http_get example_env ''https://example.com/index.xml'' = Inr (plain_response ''<index/>'')"
    by code_simp
  have h3: "\<not> raise_for_status (plain_response ''<index/>'')" by code_simp
  have h4: "fromstring example_env (decompressed example_env (plain_response ''<index/>'')) = Inr example_index"
    by code_simp
  have h5: "map elem_text (List.map_filter (find_elem ''loc'') (findall ''sitemap'' example_index))
            = [Some ''https://example.com/a.xml.gz'', Some ''https://example.com/c.xml.gz'']"
    by code_simp
  note T1 = get_sitemap_children_total[where e = example_env
      and u = "''https://example.com/missing.xml''" and msg = "''connection refused''"]
  note T2 = get_sitemap_children_total[where e = example_env
      and u = "''https://example.com/index.xml''" and r = "plain_response ''<index/>''"
      and root = example_index]
  from T1 h1 have "get_sitemap_children example_env ''https://example.com/missing.xml'' = []"
    by blast
  moreover from T2 h2 h3 h4 have "get_sitemap_children example_env ''https://example.com/index.xml''
      = map elem_text (List.map_filter (find_elem ''loc'') (findall ''sitemap'' example_index))"
    by blast
  ultimately show ?thesis using h1 h2 h3 h4 h5 by simp
qed

text \<open>
  C10, as the specification states it, fails where it counts a decompression error among
  the causes of an empty list: the body of the example index is not gzip, and its
  children are returned.
\<close>

theorem not_gzip_still_lists_children:
  "http_get example_env ''https://example.com/index.xml'' = Inr (plain_response ''<index/>'')
   \<and> gunzip example_env (content (plain_response ''<index/>'')) = Not_gzip
   \<and> get_sitemap_children example_env ''https://example.com/index.xml''
       = [Some ''https://example.com/a.xml.gz'', Some ''https://example.com/c.xml.gz'']"
  by code_simp

section \<open>Properties of the CSV output\<close>

lemma is_digit_char_of: "(k::nat) < 10 \<Longrightarrow> is_digit (char_of (48 + k))"
  by (simp add: is_digit_def)

lemma string_of_nat_digits: "list_all is_digit (string_of_nat n)"
proof (induction n rule: string_of_nat.induct)
  case (1 n)
  show ?case
  proof (cases "n < 10")
    case True
    then show ?thesis by (subst string_of_nat.simps) (simp add: is_digit_char_of)
  next
    case False
    with "1" have "list_all is_digit (string_of_nat (n div 10))" by simp
    moreover have "is_digit (char_of (48 + n mod 10))" by (rule is_digit_char_of) simp
    ultimately show ?thesis using False by (subst string_of_nat.simps) simp
  qed
qed

lemma string_of_nat_length: "n < 10 ^ k \<Longrightarrow> 0 < k \<Longrightarrow> length (string_of_nat n) \<le> k"
proof (induction k arbitrary: n)
  case 0
  then show ?case by simp
next
  case (Suc k)
  show ?case
  proof (cases "n < 10")
    case True
    then show ?thesis by (subst string_of_nat.simps) simp
  next
    case False
    with Suc.prems have k: "0 < k" by (cases k) simp_all
    from Suc.prems have "n div 10 < 10 ^ k" by (simp add: less_mult_imp_div_less mult.commute)
    from Suc.IH[OF this k] False show ?thesis by (subst string_of_nat.simps) simp
  qed
qed

lemma string_of_nat_nonempty: "string_of_nat n \<noteq> []"
  by (subst string_of_nat.simps) simp

lemma pad2_shape: "n < 100 \<Longrightarrow> length (pad2 n) = 2 \<and> list_all is_digit (pad2 n)"
proof -
  assume n: "n < 100"
  show ?thesis
  proof (cases "n < 10")
    case True
    then have "string_of_nat n = [char_of (48 + n)]" by (subst string_of_nat.simps) simp
    with True show ?thesis by (simp add: pad2_def is_digit_char_of is_digit_def)
  next
    case False
    from n have "n div 10 < 10" by simp
    then have "string_of_nat (n div 10) = [char_of (48 + n div 10)]"
      by (subst string_of_nat.simps) simp
    with False have "length (string_of_nat n) = 2" by (subst string_of_nat.simps) simp
    with False string_of_nat_digits[of n] show ?thesis by (simp add: pad2_def)
  qed
qed

lemma string_of_nat_length_eq:
  "10 ^ k \<le> n \<Longrightarrow> n < 10 ^ Suc k \<Longrightarrow> length (string_of_nat n) = Suc k"
proof (induction k arbitrary: n)
  case 0
  then show ?case by (subst string_of_nat.simps) simp
next
  case (Suc k)
  from Suc.prems(1) have "10 * 10 ^ k \<le> n" by simp
  then have lo: "10 ^ k \<le> n div 10" by simp
  from Suc.prems(2) have hi: "n div 10 < 10 ^ Suc k"
    by (simp add: less_mult_imp_div_less mult.commute)
  have "(1::nat) \<le> 10 ^ k" by simp
  with lo have "\<not> n < 10" by linarith
  with Suc.IH[OF lo hi] show ?case by (subst string_of_nat.simps) simp
qed

lemma year_shape:
  "1000 \<le> n \<Longrightarrow> n < 10000 \<Longrightarrow> length (string_of_nat n) = 4 \<and> list_all is_digit (string_of_nat n)"
  using string_of_nat_length_eq[of 3 n] string_of_nat_digits[of n] by simp

lemma strftime_shape:
  assumes "1000 \<le> year d" "year d < 10000" "month d < 100" "day d < 100" "hour d < 100"
    "minute d < 100" "second d < 100"
  shows "\<exists>Y M D h m s.
           strftime d = Y @ ''-'' @ M @ ''-'' @ D @ '' '' @ h @ '':'' @ m @ '':'' @ s @ '' '' @ tzname d
           \<and> length Y = 4 \<and> length M = 2 \<and> length D = 2 \<and> length h = 2 \<and> length m = 2 \<and> length s = 2
           \<and> list_all is_digit (Y @ M @ D @ h @ m @ s)"
proof -
  from assms year_shape pad2_shape have
    "strftime d = string_of_nat (year d) @ ''-'' @ pad2 (month d) @ ''-'' @ pad2 (day d) @ '' ''
        @ pad2 (hour d) @ '':'' @ pad2 (minute d) @ '':'' @ pad2 (second d) @ '' '' @ tzname d
     \<and> length (string_of_nat (year d)) = 4 \<and> length (pad2 (month d)) = 2 \<and> length (pad2 (day d)) = 2
     \<and> length (pad2 (hour d)) = 2 \<and> length (pad2 (minute d)) = 2 \<and> length (pad2 (second d)) = 2
     \<and> list_all is_digit (string_of_nat (year d) @ pad2 (month d) @ pad2 (day d) @ pad2 (hour d)
          @ pad2 (minute d) @ pad2 (second d))"
    by (simp add: strftime_def)
  then show ?thesis by blast
qed

lemma csv_line_fields:
  "csv_line fieldnames =
     ''property_id,listing_url,address,city,state,zipcode,last_modified,last_modified_est''
       @ [CHR 0x0D, CHR 0x0A]"
  by code_simp

lemma logger_info_disk: "disk (logger_info e m w) = disk w"
  by (simp add: logger_info_def)

text \<open>
  C5, as the code has it. A non-empty batch whose file can be written is saved under the
  name made of the category and the time, and the text of the file begins with the row
  \<open>property_id,listing_url,address,city,state,zipcode,last_modified,last_modified_est\<close>,
  the eight field names in this order. Every record gives a row of eight values; the last
  is the local timestamp in the format \<open>%Y-%m-%d %H:%M:%S %Z\<close> when the record has one, and
  empty when it has none. For a year from 1000 to 9999 the format gives four digits, two,
  two, a space, two, two, two, a space and the name of the zone; an earlier year is
  printed with fewer digits.
\<close>

theorem save_to_csv_header_and_local_time:
  assumes "listings \<noteq> []"
    and "write_error e (''listings_'' @ category @ ''_'' @ now_stamp e @ ''.csv'') = None"
  shows "fst (save_to_csv e listings category w)
           = Some (''listings_'' @ category @ ''_'' @ now_stamp e @ ''.csv'')
       \<and> disk (snd (save_to_csv e listings category w))
           = disk w @ [(''listings_'' @ category @ ''_'' @ now_stamp e @ ''.csv'', csv_text listings)]
       \<and> csv_text listings
           = ''property_id,listing_url,address,city,state,zipcode,last_modified,last_modified_est''
               @ [CHR 0x0D, CHR 0x0A]
               @ concat (map (\<lambda>l. csv_line (map (row_value l) fieldnames)) listings)
       \<and> (\<forall>l \<in> set listings.
             length (map (row_value l) fieldnames) = 8
             \<and> last (map (row_value l) fieldnames)
                 = (case last_modified_est l of None \<Rightarrow> [] | Some d \<Rightarrow> strftime d))
       \<and> (\<forall>d. 1000 \<le> year d \<and> year d < 10000 \<and> month d < 100 \<and> day d < 100 \<and> hour d < 100
               \<and> minute d < 100 \<and> second d < 100 \<longrightarrow>
             (\<exists>Y M D h m s.
                strftime d = Y @ ''-'' @ M @ ''-'' @ D @ '' '' @ h @ '':'' @ m @ '':'' @ s @ '' '' @ tzname d
                \<and> length Y = 4 \<and> length M = 2 \<and> length D = 2 \<and> length h = 2 \<and> length m = 2
                \<and> length s = 2 \<and> list_all is_digit (Y @ M @ D @ h @ m @ s)))"
proof -
  let ?f = "''listings_'' @ category @ ''_'' @ now_stamp e @ ''.csv''"
  from assms have a: "fst (save_to_csv e listings category w) = Some ?f"
    by (simp add: save_to_csv_def Let_def)
  from assms have b: "disk (snd (save_to_csv e listings category w)) = disk w @ [(?f, csv_text listings)]"
    by (simp add: save_to_csv_def Let_def logger_info_disk file_saved_def)
  have c: "csv_text listings
           = ''property_id,listing_url,address,city,state,zipcode,last_modified,last_modified_est''
               @ [CHR 0x0D, CHR 0x0A]
               @ concat (map (\<lambda>l. csv_line (map (row_value l) fieldnames)) listings)"
    by (simp add: csv_text_def csv_rows_def csv_line_fields comp_def)
  have d: "\<forall>l \<in> set listings.
             length (map (row_value l) fieldnames) = 8
             \<and> last (map (row_value l) fieldnames)
                 = (case last_modified_est l of None \<Rightarrow> [] | Some d \<Rightarrow> strftime d)"
    by (simp add: fieldnames_def row_value_def)
  from a b c d strftime_shape show ?thesis by blast
qed

theorem save_to_csv_header_and_local_time_witness:
  "[example_listing, example_listing_raw] \<noteq> []
   \<and> write_error example_env (''listings_'' @ ''a'' @ ''_'' @ now_stamp example_env @ ''.csv'') = None
   \<and> fst (save_to_csv example_env [example_listing, example_listing_raw] ''a'' initial_world)
       = Some ''listings_a_20240115_120000.csv''
   \<and> last (map (row_value example_listing) fieldnames) = ''2024-01-15 07:00:00 EST''
   \<and> last (map (row_value example_listing_raw) fieldnames) = []"
proof -
  have h1: "[example_listing, example_listing_raw] \<noteq> []" by simp
  have h2: "write_error example_env (''listings_'' @ ''a'' @ ''_'' @ now_stamp example_env @ ''.csv'') = None"
    by code_simp
  have n: "''listings_'' @ ''a'' @ ''_'' @ now_stamp example_env @ ''.csv'' = ''listings_a_20240115_120000.csv''"
    by code_simp
  have s: "(case last_modified_est example_listing of None \<Rightarrow> [] | Some d \<Rightarrow> strftime d)
             = ''2024-01-15 07:00:00 EST''"
    by code_simp
  have t: "(case last_modified_est example_listing_raw of None \<Rightarrow> [] | Some d \<Rightarrow> strftime d) = []"
    by code_simp
  note T = save_to_csv_header_and_local_time[OF h1 h2, of initial_world]
  from T n have "fst (save_to_csv example_env [example_listing, example_listing_raw] ''a'' initial_world)
       = Some ''listings_a_20240115_120000.csv''" by simp
  moreover from T s have "last (map (row_value example_listing) fieldnames) = ''2024-01-15 07:00:00 EST''"
    by simp
  moreover from T t have "last (map (row_value example_listing_raw) fieldnames) = []"
    by simp
  ultimately show ?thesis using h1 h2 by blast
qed

text \<open>
  C5, as the specification states it, fails on the name of the last column: the header
  row is not the one that ends in \<open>last_modified_local\<close>. It also fails on the form of
  the last column for a local time before the year 1000, whose year is not printed in
  four digits: 07:04:00 local mean time on the first of June 999 is written
  \<open>999-06-01 07:04:00 LMT\<close>.
\<close>

theorem csv_header_last_column_is_est:
  "hd (csv_rows [example_listing]) \<noteq>
     [''property_id'', ''listing_url'', ''address'', ''city'', ''state'', ''zipcode'',
      ''last_modified'', ''last_modified_local'']
   \<and> take 84 (csv_text [example_listing]) \<noteq>
       ''property_id,listing_url,address,city,state,zipcode,last_modified,last_modified_local''
   \<and> last (map (row_value
          (example_listing\<lparr>last_modified := Some ''0999-06-01T12:00:00Z'',
             last_modified_est :=
               Some \<lparr>year = 999, month = 6, day = 1, hour = 7, minute = 4, second = 0,
                     utcoffset = - 17760, tzname = ''LMT''\<rparr>\<rparr>)) fieldnames)
       = ''999-06-01 07:04:00 LMT''"
  by code_simp

section \<open>Properties of the store\<close>

lemma first_seen_Nil: "first_seen S [] = []"
  by (simp add: first_seen_def)

lemma first_seen_Cons:
  "first_seen S (x # xs) =
     (if property_id x \<in> S then [] else [x]) @ first_seen (insert (property_id x) S) xs"
proof -
  define P where "P = (\<lambda>i. property_id ((x # xs) ! i) \<notin> S \<union> property_id ` set (take i (x # xs)))"
  define Q where "Q = (\<lambda>i. property_id (xs ! i)
                          \<notin> insert (property_id x) S \<union> property_id ` set (take i xs))"
  have "[0..<Suc (length xs)] = 0 # [Suc 0..<Suc (length xs)]"
    by (rule upt_conv_Cons) simp
  also have "[Suc 0..<Suc (length xs)] = map Suc [0..<length xs]"
    by (rule map_Suc_upt[symmetric])
  finally have u: "[0..<length (x # xs)] = 0 # map Suc [0..<length xs]" by simp
  have PQ: "P (Suc i) = Q i" for i by (auto simp: P_def Q_def)
  have P0: "P 0 = (property_id x \<notin> S)" by (simp add: P_def)
  have f: "filter P (map Suc [0..<length xs]) = map Suc (filter Q [0..<length xs])"
    by (simp add: filter_map comp_def PQ)
  have "first_seen S (x # xs) = map ((!) (x # xs)) (filter P (0 # map Suc [0..<length xs]))"
    unfolding first_seen_def P_def u ..
  also have "\<dots> = (if property_id x \<in> S then [] else [x])
                   @ map ((!) (x # xs)) (map Suc (filter Q [0..<length xs]))"
    by (simp add: f P0)
  also have "map ((!) (x # xs)) (map Suc (filter Q [0..<length xs])) = map ((!) xs) (filter Q [0..<length xs])"
    by (simp add: comp_def)
  also have "map ((!) xs) (filter Q [0..<length xs]) = first_seen (insert (property_id x) S) xs"
    unfolding first_seen_def Q_def ..
  finally show ?thesis .
qed

lemma first_seen_ids:
  "set (map property_id (first_seen S xs)) = property_id ` set xs - S
   \<and> distinct (map property_id (first_seen S xs))"
proof (induction xs arbitrary: S)
  case Nil
  show ?case by (simp add: first_seen_Nil)
next
  case (Cons x xs)
  from Cons[of "insert (property_id x) S"] show ?case
    by (auto simp: first_seen_Cons)
qed

lemma first_seen_length:
  "length (first_seen S xs) = card (property_id ` set xs - S)"
proof -
  from first_seen_ids[of S xs] have d: "distinct (map property_id (first_seen S xs))"
    and s: "set (map property_id (first_seen S xs)) = property_id ` set xs - S" by blast+
  have "length (first_seen S xs) = length (map property_id (first_seen S xs))" by simp
  also from d have "\<dots> = card (set (map property_id (first_seen S xs)))"
    by (rule distinct_card[symmetric])
  finally show ?thesis by (simp only: s)
qed

lemma offered_Cons:
  "offered e (el # urls) = (case decoded e el of None \<Rightarrow> offered e urls | Some l \<Rightarrow> l # offered e urls)"
  by (simp add: offered_def split: option.splits)

lemma seen_ids_logger_info [simp]: "seen_ids (logger_info e m w) = seen_ids w"
  by (simp add: logger_info_def)

lemma loop_turn_store:
  "fst (loop_turn e n idx el (ls, w)) =
     ls @ (case decoded e el of None \<Rightarrow> [] | Some l \<Rightarrow> if property_id l \<in> seen_ids w then [] else [l])"
  "seen_ids (snd (loop_turn e n idx el (ls, w))) =
     (case decoded e el of None \<Rightarrow> seen_ids w | Some l \<Rightarrow> insert (property_id l) (seen_ids w))"
  by (auto simp: loop_turn_def process_url_elem_decoded Let_def split: option.splits)

lemma extract_loop_store:
  "fst (extract_loop e n idx urls (ls, w)) = ls @ first_seen (seen_ids w) (offered e urls)
   \<and> seen_ids (snd (extract_loop e n idx urls (ls, w)))
       = seen_ids w \<union> property_id ` set (offered e urls)"
proof (induction urls arbitrary: idx ls w)
  case Nil
  show ?case by (simp add: offered_def first_seen_Nil)
next
  case (Cons el urls)
  obtain ls1 w1 where t: "loop_turn e n idx el (ls, w) = (ls1, w1)"
    by (cases "loop_turn e n idx el (ls, w)")
  from loop_turn_store[of e n idx el ls w] t have
    l1: "ls1 = ls @ (case decoded e el of None \<Rightarrow> [] | Some l \<Rightarrow> if property_id l \<in> seen_ids w then [] else [l])"
    and s1: "seen_ids w1 = (case decoded e el of None \<Rightarrow> seen_ids w | Some l \<Rightarrow> insert (property_id l) (seen_ids w))"
    by simp_all
  from Cons[of "Suc idx" ls1 w1] t
  have IH: "fst (extract_loop e n idx (el # urls) (ls, w)) = ls1 @ first_seen (seen_ids w1) (offered e urls)"
    "seen_ids (snd (extract_loop e n idx (el # urls) (ls, w)))
       = seen_ids w1 \<union> property_id ` set (offered e urls)"
    by simp_all
  show ?case
  proof (cases "decoded e el")
    case None
    with IH l1 s1 show ?thesis by (simp add: offered_Cons)
  next
    case (Some l)
    with IH l1 s1 show ?thesis by (auto simp: offered_Cons first_seen_Cons insert_absorb)
  qed
qed

section \<open>Properties of a job\<close>

lemma outputs_logger_info [simp]: "outputs (logger_info e m w) = outputs w"
  by (simp add: outputs_def logger_info_def emit_def Let_def)

lemma outputs_logger_error [simp]: "outputs (logger_error e m w) = outputs w"
  by (simp add: outputs_def logger_error_def emit_def Let_def)

lemma outputs_seen_ids: "outputs w = outputs w' \<Longrightarrow> seen_ids w = seen_ids w'"
  by (simp add: outputs_def)

lemma outputs_flags:
  "outputs w = outputs w' \<Longrightarrow>
     extraction_paused w = extraction_paused w' \<and> running (status w) = running (status w')
     \<and> error (status w) = error (status w')"
  by (simp add: outputs_def)

lemma outputs_seen_update:
  "outputs w = outputs w' \<Longrightarrow> outputs (w\<lparr>seen_ids := S\<rparr>) = outputs (w'\<lparr>seen_ids := S\<rparr>)"
  by (simp add: outputs_def)

lemma download_sitemap_fst: "fst (download_sitemap e url w) = downloaded e url"
  by (simp add: download_sitemap_def downloaded_def Let_def split: sum.splits gz_result.splits)

lemma download_sitemap_outputs: "outputs (snd (download_sitemap e url w)) = outputs w"
  by (simp add: download_sitemap_def Let_def split: sum.splits gz_result.splits)

lemma loop_turn_outputs:
  "outputs (snd (loop_turn e n idx el (ls, w)))
     = outputs (w\<lparr>seen_ids := seen_ids (snd (loop_turn e n idx el (ls, w)))\<rparr>)"
  by (simp add: loop_turn_def process_url_elem_decoded Let_def outputs_def logger_info_def
        emit_def split: option.splits)

lemma extract_loop_outputs:
  "outputs (snd (extract_loop e n idx urls (ls, w)))
     = outputs (w\<lparr>seen_ids := seen_ids (snd (extract_loop e n idx urls (ls, w)))\<rparr>)"
proof (induction urls arbitrary: idx ls w)
  case Nil
  show ?case by simp
next
  case (Cons el urls)
  obtain ls1 w1 where t: "loop_turn e n idx el (ls, w) = (ls1, w1)"
    by (cases "loop_turn e n idx el (ls, w)")
  let ?S = "seen_ids (snd (extract_loop e n (Suc idx) urls (ls1, w1)))"
  from loop_turn_outputs[of e n idx el ls w] t
  have "outputs w1 = outputs (w\<lparr>seen_ids := seen_ids w1\<rparr>)" by simp
  then have "outputs (w1\<lparr>seen_ids := ?S\<rparr>) = outputs (w\<lparr>seen_ids := seen_ids w1\<rparr>\<lparr>seen_ids := ?S\<rparr>)"
    by (rule outputs_seen_update)
  with Cons[of "Suc idx" ls1 w1] t show ?case by simp
qed

lemma extract_raises:
  assumes "job_offers e url = Inl msg"
  shows "\<exists>w1. extract_listings_from_sitemap e url w = Inl (msg, w1) \<and> outputs w1 = outputs w"
proof -
  obtain d w1 where dl: "download_sitemap e url w = (d, w1)" by (cases "download_sitemap e url w")
  with download_sitemap_fst[of e url w] download_sitemap_outputs[of e url w]
  have d: "d = downloaded e url" and o: "outputs w1 = outputs w" by simp_all
  from assms obtain c where "downloaded e url = Some c" "c \<noteq> []" "fromstring e c = Inl msg"
    by (auto simp: job_offers_def split: option.splits if_splits sum.splits)
  with d have c: "d = Some c" "c \<noteq> []" "fromstring e c = Inl msg" by simp_all
  with dl o show ?thesis by (simp add: extract_listings_from_sitemap_def)
qed

lemma extract_returns:
  assumes "job_offers e url = Inr xs"
  shows "\<exists>w3. extract_listings_from_sitemap e url w = Inr (first_seen (seen_ids w) xs, w3)
              \<and> outputs w3 = outputs (w\<lparr>seen_ids := seen_ids w \<union> property_id ` set xs\<rparr>)"
proof -
  obtain d w1 where dl: "download_sitemap e url w = (d, w1)" by (cases "download_sitemap e url w")
  with download_sitemap_fst[of e url w] download_sitemap_outputs[of e url w]
  have d: "d = downloaded e url" and o: "outputs w1 = outputs w" by simp_all
  have same: "outputs (w\<lparr>seen_ids := seen_ids w \<union> {}\<rparr>) = outputs w" by (simp add: outputs_def)
  show ?thesis
  proof (cases "d = None \<or> d = Some []")
    case True
    with d have "downloaded e url = None \<or> downloaded e url = Some []" by simp
    with assms have "xs = []" by (auto simp: job_offers_def)
    with True dl o same show ?thesis
      by (auto simp: extract_listings_from_sitemap_def first_seen_Nil)
  next
    case False
    then obtain c where c: "d = Some c" "c \<noteq> []" by (cases d) auto
    with d have "downloaded e url = Some c" by simp
    with assms c(2) obtain root where r: "fromstring e c = Inr root" "xs = offered e (findall ''url'' root)"
      by (auto simp: job_offers_def split: sum.splits)
    define w2 where "w2 = logger_info e (''Processing '' @ string_of_nat (length (findall ''url'' root))
                                               @ '' URLs from sitemap...'') w1"
    obtain ls w3 where l: "extract_loop e (length (findall ''url'' root)) 1 (findall ''url'' root) ([], w2) = (ls, w3)"
      by (cases "extract_loop e (length (findall ''url'' root)) 1 (findall ''url'' root) ([], w2)")
    have o2: "outputs w2 = outputs w" by (simp add: w2_def o)
    then have s2: "seen_ids w2 = seen_ids w" by (rule outputs_seen_ids)
    from extract_loop_store[of e "length (findall ''url'' root)" 1 "findall ''url'' root" "[]" w2] l r s2
    have ls: "ls = first_seen (seen_ids w) xs" and s3: "seen_ids w3 = seen_ids w \<union> property_id ` set xs"
      by simp_all
    from extract_loop_outputs[of e "length (findall ''url'' root)" 1 "findall ''url'' root" "[]" w2] l s3
    have "outputs w3 = outputs (w2\<lparr>seen_ids := seen_ids w \<union> property_id ` set xs\<rparr>)" by simp
    also from o2 have "\<dots> = outputs (w\<lparr>seen_ids := seen_ids w \<union> property_id ` set xs\<rparr>)"
      by (rule outputs_seen_update)
    finally have o3: "outputs w3 = outputs (w\<lparr>seen_ids := seen_ids w \<union> property_id ` set xs\<rparr>)" .
    from dl c r l ls o3 show ?thesis
      by (simp add: extract_listings_from_sitemap_def Let_def w2_def)
  qed
qed

lemma outputs_begin_job [simp]: "outputs (begin_job e cat c n w) = outputs w"
proof -
  have p: "outputs (v\<lparr>status := (status v)\<lparr>current_category := a, processed_categories := b,
                                            progress := p\<rparr>\<rparr>) = outputs v" for v a b p
    by (simp add: outputs_def)
  show ?thesis by (simp add: begin_job_def Let_def p)
qed

lemma outputs_file_saved_cong:
  "outputs w = outputs w' \<Longrightarrow> outputs (file_saved f t w) = outputs (file_saved f t w')"
  by (simp add: outputs_def file_saved_def)

lemma save_to_csv_cong:
  "outputs w = outputs w' \<Longrightarrow>
     outputs (snd (save_to_csv e ls c w)) = outputs (snd (save_to_csv e ls c w'))"
proof -
  assume o: "outputs w = outputs w'"
  let ?f = "''listings_'' @ c @ ''_'' @ now_stamp e @ ''.csv''"
  show ?thesis
  proof (cases "ls = [] \<or> write_error e ?f \<noteq> None")
    case True
    with o show ?thesis by (auto simp: save_to_csv_def Let_def)
  next
    case False
    with outputs_file_saved_cong[OF o] show ?thesis by (simp add: save_to_csv_def Let_def)
  qed
qed

lemma save_to_json_cong:
  "outputs w = outputs w' \<Longrightarrow>
     outputs (snd (save_to_json e ls c w)) = outputs (snd (save_to_json e ls c w'))"
proof -
  assume o: "outputs w = outputs w'"
  let ?f = "''listings_'' @ c @ ''_'' @ now_stamp e @ ''.json''"
  show ?thesis
  proof (cases "ls = [] \<or> write_error e ?f \<noteq> None")
    case True
    with o show ?thesis by (auto simp: save_to_json_def Let_def)
  next
    case False
    with outputs_file_saved_cong[OF o] show ?thesis by (simp add: save_to_json_def Let_def)
  qed
qed

lemma save_to_csv_keeps:
  "seen_ids (snd (save_to_csv e ls c w)) = seen_ids w
   \<and> self_total_properties (snd (save_to_csv e ls c w)) = self_total_properties w
   \<and> extraction_paused (snd (save_to_csv e ls c w)) = extraction_paused w
   \<and> running (status (snd (save_to_csv e ls c w))) = running (status w)
   \<and> error (status (snd (save_to_csv e ls c w))) = error (status w)"
  by (simp add: save_to_csv_def Let_def file_saved_def logger_info_def logger_error_def emit_def
        split: option.splits)

lemma save_to_json_keeps:
  "seen_ids (snd (save_to_json e ls c w)) = seen_ids w
   \<and> self_total_properties (snd (save_to_json e ls c w)) = self_total_properties w
   \<and> extraction_paused (snd (save_to_json e ls c w)) = extraction_paused w
   \<and> running (status (snd (save_to_json e ls c w))) = running (status w)
   \<and> error (status (snd (save_to_json e ls c w))) = error (status w)"
  by (simp add: save_to_json_def Let_def file_saved_def logger_info_def logger_error_def emit_def
        split: option.splits)

lemma outputs_count_cong:
  "outputs v = outputs v' \<Longrightarrow>
     outputs (v\<lparr>self_total_properties := self_total_properties v + k,
               status := (status v)\<lparr>total_properties := self_total_properties v + k\<rparr>\<rparr>)
     = outputs (v'\<lparr>self_total_properties := self_total_properties v' + k,
                  status := (status v')\<lparr>total_properties := self_total_properties v' + k\<rparr>\<rparr>)"
  by (simp add: outputs_def)

lemma end_job_cong:
  assumes "outputs w = outputs w'"
  shows "outputs (end_job e fmt ls c w) = outputs (end_job e fmt ls c w')"
proof -
  define v where "v = (if fmt = ''csv'' then snd (save_to_csv e ls c w)
                else if fmt = ''json'' then snd (save_to_json e ls c w) else w)"
  define v' where "v' = (if fmt = ''csv'' then snd (save_to_csv e ls c w')
                else if fmt = ''json'' then snd (save_to_json e ls c w') else w')"
  from save_to_csv_cong[OF assms] save_to_json_cong[OF assms] assms have "outputs v = outputs v'"
    by (simp add: v_def v'_def)
  then have "outputs (v\<lparr>self_total_properties := self_total_properties v + length ls,
               status := (status v)\<lparr>total_properties := self_total_properties v + length ls\<rparr>\<rparr>)
     = outputs (v'\<lparr>self_total_properties := self_total_properties v' + length ls,
                  status := (status v')\<lparr>total_properties := self_total_properties v' + length ls\<rparr>\<rparr>)"
    by (rule outputs_count_cong)
  then show ?thesis
    unfolding end_job_def Let_def v_def v'_def .
qed

lemma end_job_keeps:
  "seen_ids (end_job e fmt ls c w) = seen_ids w
   \<and> self_total_properties (end_job e fmt ls c w) = self_total_properties w + length ls
   \<and> extraction_paused (end_job e fmt ls c w) = extraction_paused w
   \<and> running (status (end_job e fmt ls c w)) = running (status w)
   \<and> error (status (end_job e fmt ls c w)) = error (status w)"
  by (simp add: end_job_def Let_def save_to_csv_keeps save_to_json_keeps)

lemma process_running_raises:
  assumes "job_offers e url = Inl msg"
  shows "\<exists>w1. process_running e fmt url c n w = Inl (msg, w1) \<and> outputs w1 = outputs w"
proof -
  let ?cat = "py_replace ''.xml.gz'' [] (last (py_split (CHR ''/'') url))"
  from extract_raises[OF assms, of "begin_job e ?cat c n w"] obtain w1 where
    "extract_listings_from_sitemap e url (begin_job e ?cat c n w) = Inl (msg, w1)"
    "outputs w1 = outputs (begin_job e ?cat c n w)" by blast
  then show ?thesis by (simp add: process_running_def Let_def)
qed

lemma process_running_returns:
  assumes "job_offers e url = Inr xs"
  shows "\<exists>w1. process_running e fmt url c n w
                  = Inr (end_job e fmt (first_seen (seen_ids w) xs)
                           (py_replace ''.xml.gz'' [] (last (py_split (CHR ''/'') url))) w1)
              \<and> outputs w1 = outputs (w\<lparr>seen_ids := seen_ids w \<union> property_id ` set xs\<rparr>)"
proof -
  let ?cat = "py_replace ''.xml.gz'' [] (last (py_split (CHR ''/'') url))"
  let ?b = "begin_job e ?cat c n w"
  have ob: "outputs ?b = outputs w" by simp
  then have sb: "seen_ids ?b = seen_ids w" by (rule outputs_seen_ids)
  from extract_returns[OF assms, of ?b] sb obtain w3 where
    x: "extract_listings_from_sitemap e url ?b = Inr (first_seen (seen_ids w) xs, w3)"
    and o3: "outputs w3 = outputs (?b\<lparr>seen_ids := seen_ids w \<union> property_id ` set xs\<rparr>)"
    by auto
  from ob have "outputs (?b\<lparr>seen_ids := seen_ids w \<union> property_id ` set xs\<rparr>)
              = outputs (w\<lparr>seen_ids := seen_ids w \<union> property_id ` set xs\<rparr>)"
    by (rule outputs_seen_update)
  with o3 have "outputs w3 = outputs (w\<lparr>seen_ids := seen_ids w \<union> property_id ` set xs\<rparr>)" by simp
  moreover from x have "process_running e fmt url c n w
      = Inr (end_job e fmt (first_seen (seen_ids w) xs) ?cat w3)"
    by (simp add: process_running_def Let_def)
  ultimately show ?thesis by blast
qed

text \<open>
  The outputs of a job depend on the outputs before it, not on its number, the number
  of jobs, or the log.
\<close>

lemma process_running_cong:
  assumes "outputs w = outputs w'"
  shows "(\<exists>m a a'. process_running e fmt url c n w = Inl (m, a)
             \<and> process_running e fmt url c' n' w' = Inl (m, a') \<and> outputs a = outputs a')
       \<or> (\<exists>a a'. process_running e fmt url c n w = Inr a
             \<and> process_running e fmt url c' n' w' = Inr a' \<and> outputs a = outputs a')"
proof (cases "job_offers e url")
  case (Inl msg)
  from process_running_raises[OF Inl, of fmt c n w] obtain a where
    a: "process_running e fmt url c n w = Inl (msg, a)" "outputs a = outputs w" by blast
  from process_running_raises[OF Inl, of fmt c' n' w'] obtain a' where
    a': "process_running e fmt url c' n' w' = Inl (msg, a')" "outputs a' = outputs w'" by blast
  from a(2) a'(2) assms have "outputs a = outputs a'" by simp
  with a(1) a'(1) show ?thesis by blast
next
  case (Inr xs)
  let ?cat = "py_replace ''.xml.gz'' [] (last (py_split (CHR ''/'') url))"
  let ?S = "seen_ids w \<union> property_id ` set xs"
  from outputs_seen_ids[OF assms] have s: "seen_ids w' = seen_ids w" by simp
  from process_running_returns[OF Inr, of fmt c n w] obtain w1 where
    a: "process_running e fmt url c n w = Inr (end_job e fmt (first_seen (seen_ids w) xs) ?cat w1)"
    and o1: "outputs w1 = outputs (w\<lparr>seen_ids := ?S\<rparr>)" by blast
  from process_running_returns[OF Inr, of fmt c' n' w'] obtain w1' where
    "process_running e fmt url c' n' w' = Inr (end_job e fmt (first_seen (seen_ids w') xs) ?cat w1')"
    and "outputs w1' = outputs (w'\<lparr>seen_ids := seen_ids w' \<union> property_id ` set xs\<rparr>)" by blast
  then have
    a': "process_running e fmt url c' n' w' = Inr (end_job e fmt (first_seen (seen_ids w) xs) ?cat w1')"
    and o1': "outputs w1' = outputs (w'\<lparr>seen_ids := ?S\<rparr>)" by (simp_all only: s)
  from assms have "outputs (w\<lparr>seen_ids := ?S\<rparr>) = outputs (w'\<lparr>seen_ids := ?S\<rparr>)"
    by (rule outputs_seen_update)
  with o1 o1' have "outputs w1 = outputs w1'" by simp
  then have "outputs (end_job e fmt (first_seen (seen_ids w) xs) ?cat w1)
           = outputs (end_job e fmt (first_seen (seen_ids w) xs) ?cat w1')"
    by (rule end_job_cong)
  with a a' show ?thesis by blast
qed

text \<open>What a job does to the store and to the count, and what it leaves alone.\<close>

lemma process_running_store:
  assumes "process_running e fmt url c n w = Inr w1"
  shows "\<exists>xs. job_offers e url = Inr xs
            \<and> seen_ids w1 = seen_ids w \<union> property_id ` set xs
            \<and> self_total_properties w1 = self_total_properties w + length (first_seen (seen_ids w) xs)
            \<and> extraction_paused w1 = extraction_paused w
            \<and> running (status w1) = running (status w)
            \<and> error (status w1) = error (status w)"
proof (cases "job_offers e url")
  case (Inl msg)
  from process_running_raises[OF Inl, of fmt c n w] assms show ?thesis by auto
next
  case (Inr xs)
  let ?cat = "py_replace ''.xml.gz'' [] (last (py_split (CHR ''/'') url))"
  from process_running_returns[OF Inr, of fmt c n w] obtain v where
    a: "process_running e fmt url c n w = Inr (end_job e fmt (first_seen (seen_ids w) xs) ?cat v)"
    and o: "outputs v = outputs (w\<lparr>seen_ids := seen_ids w \<union> property_id ` set xs\<rparr>)" by blast
  from o have v: "seen_ids v = seen_ids w \<union> property_id ` set xs"
    "self_total_properties v = self_total_properties w"
    "extraction_paused v = extraction_paused w" "running (status v) = running (status w)"
    "error (status v) = error (status w)"
    by (simp_all add: outputs_def)
  from a assms have "w1 = end_job e fmt (first_seen (seen_ids w) xs) ?cat v" by simp
  with v end_job_keeps[of e fmt "first_seen (seen_ids w) xs" ?cat v] Inr show ?thesis by simp
qed

lemma emit_last: "last (logs (emit e x st)) = ''['' @ now_clock e @ ''] '' @ x"
proof -
  let ?l = "logs st @ [''['' @ now_clock e @ ''] '' @ x]"
  have "length ?l - 200 < length ?l" by simp
  then have "last (drop (length ?l - 200) ?l) = last ?l" by (rule last_drop)
  then show ?thesis by (simp add: emit_def Let_def)
qed

lemma run_job_raises:
  assumes "job_offers e url = Inl msg" and "running (status w)" and "\<not> extraction_paused w"
  shows "\<exists>w1. run_job e fmt n c url w = Some w1
              \<and> last (logs (status w1)) = ''['' @ now_clock e @ ''] ERROR - Error processing sitemap: '' @ msg
              \<and> outputs w1 = outputs w"
proof -
  from process_running_raises[OF assms(1), of fmt c n w] obtain a where
    a: "process_running e fmt url c n w = Inl (msg, a)" "outputs a = outputs w" by blast
  let ?w1 = "logger_error e (''Error processing sitemap: '' @ msg) a"
  from a(1) assms(2,3) have "run_job e fmt n c url w = Some ?w1"
    by (simp add: run_job_def process_sitemap_def)
  moreover have "last (logs (status ?w1)) = ''['' @ now_clock e @ ''] ERROR - Error processing sitemap: '' @ msg"
    by (simp add: logger_error_def emit_last)
  moreover from a(2) have "outputs ?w1 = outputs w" by simp
  ultimately show ?thesis by blast
qed

lemma run_job_cong:
  assumes "outputs w = outputs w'"
  shows "(run_job e fmt n c url w = None \<and> run_job e fmt n' c' url w' = None)
       \<or> (\<exists>a a'. run_job e fmt n c url w = Some a \<and> run_job e fmt n' c' url w' = Some a'
                  \<and> outputs a = outputs a')"
proof -
  from outputs_flags[OF assms] have f: "extraction_paused w' = extraction_paused w"
    "running (status w') = running (status w)" by simp_all
  show ?thesis
  proof (cases "\<not> extraction_paused w \<and> running (status w)")
    case False
    with f assms show ?thesis by (auto simp: run_job_def process_sitemap_def)
  next
    case True
    from process_running_cong[OF assms, of e fmt url c n c' n'] show ?thesis
    proof
      assume "\<exists>m a a'. process_running e fmt url c n w = Inl (m, a)
             \<and> process_running e fmt url c' n' w' = Inl (m, a') \<and> outputs a = outputs a'"
      then obtain m a a' where "process_running e fmt url c n w = Inl (m, a)"
        "process_running e fmt url c' n' w' = Inl (m, a')" "outputs a = outputs a'" by blast
      with True f show ?thesis by (simp add: run_job_def process_sitemap_def)
    next
      assume "\<exists>a a'. process_running e fmt url c n w = Inr a
             \<and> process_running e fmt url c' n' w' = Inr a' \<and> outputs a = outputs a'"
      then obtain a a' where "process_running e fmt url c n w = Inr a"
        "process_running e fmt url c' n' w' = Inr a'" "outputs a = outputs a'" by blast
      with True f show ?thesis by (simp add: run_job_def process_sitemap_def)
    qed
  qed
qed

lemma run_job_total: "\<not> extraction_paused w \<Longrightarrow> \<exists>w1. run_job e fmt n c url w = Some w1"
  by (simp add: run_job_def process_sitemap_def split: sum.splits prod.splits)

lemma run_job_store:
  assumes "run_job e fmt n c url w = Some w1"
  shows "extraction_paused w1 = extraction_paused w \<and> running (status w1) = running (status w)
       \<and> error (status w1) = error (status w)
       \<and> (running (status w) \<and> \<not> extraction_paused w \<longrightarrow> seen_ids w1 = seen_ids w \<union> job_ids e url)
       \<and> (finite (seen_ids w) \<and> self_total_properties w = card (seen_ids w)
            \<longrightarrow> finite (seen_ids w1) \<and> self_total_properties w1 = card (seen_ids w1))"
proof (cases "\<not> extraction_paused w \<and> running (status w)")
  case False
  with assms have "w1 = w" by (auto simp: run_job_def process_sitemap_def split: if_splits)
  with False show ?thesis by auto
next
  case True
  show ?thesis
  proof (cases "process_running e fmt url c n w")
    case (Inl x)
    obtain m a where x: "x = (m, a)" by (cases x)
    have jo: "\<exists>msg. job_offers e url = Inl msg"
    proof (cases "job_offers e url")
      case (Inl msg) then show ?thesis by blast
    next
      case (Inr xs)
      from process_running_returns[OF Inr, of fmt c n w] \<open>process_running e fmt url c n w = Inl x\<close>
      show ?thesis by auto
    qed
    then obtain msg where msg: "job_offers e url = Inl msg" by blast
    from process_running_raises[OF msg, of fmt c n w] Inl x have o: "outputs a = outputs w" by auto
    from Inl x True assms have "w1 = logger_error e (''Error processing sitemap: '' @ m) a"
      by (simp add: run_job_def process_sitemap_def)
    with o have "outputs w1 = outputs w" by simp
    then have "extraction_paused w1 = extraction_paused w" "running (status w1) = running (status w)"
      "error (status w1) = error (status w)" "seen_ids w1 = seen_ids w"
      "self_total_properties w1 = self_total_properties w"
      by (simp_all add: outputs_def)
    with msg show ?thesis by (simp add: job_ids_def)
  next
    case (Inr a)
    with True assms have "w1 = a" by (simp add: run_job_def process_sitemap_def)
    with Inr have "process_running e fmt url c n w = Inr w1" by simp
    from process_running_store[OF this] obtain xs where xs: "job_offers e url = Inr xs"
      "seen_ids w1 = seen_ids w \<union> property_id ` set xs"
      "self_total_properties w1 = self_total_properties w + length (first_seen (seen_ids w) xs)"
      "extraction_paused w1 = extraction_paused w" "running (status w1) = running (status w)"
      "error (status w1) = error (status w)" by blast
    have "finite (seen_ids w) \<and> self_total_properties w = card (seen_ids w)
            \<longrightarrow> finite (seen_ids w1) \<and> self_total_properties w1 = card (seen_ids w1)"
    proof
      assume h: "finite (seen_ids w) \<and> self_total_properties w = card (seen_ids w)"
      from h have fin: "finite (seen_ids w)" and tot: "self_total_properties w = card (seen_ids w)"
        by blast+
      have u: "seen_ids w \<union> (property_id ` set xs - seen_ids w) = seen_ids w1"
        unfolding xs(2) by blast
      from fin have "card (seen_ids w \<union> (property_id ` set xs - seen_ids w))
                 = card (seen_ids w) + card (property_id ` set xs - seen_ids w)"
        by (intro card_Un_disjoint) auto
      then have "card (seen_ids w1) = card (seen_ids w) + card (property_id ` set xs - seen_ids w)"
        by (simp only: u)
      moreover from xs(3) have "self_total_properties w1
          = self_total_properties w + card (property_id ` set xs - seen_ids w)"
        by (simp only: first_seen_length)
      moreover from fin have "finite (seen_ids w1)" unfolding xs(2) by simp
      ultimately show "finite (seen_ids w1) \<and> self_total_properties w1 = card (seen_ids w1)"
        using tot by simp
    qed
    with xs show ?thesis by (simp add: job_ids_def)
  qed
qed

section \<open>Properties of a run\<close>

lemma run_jobs_append:
  "run_jobs e fmt n i (xs @ ys) w =
     (case run_jobs e fmt n i xs w of
        None \<Rightarrow> None
      | Some w1 \<Rightarrow> run_jobs e fmt n (i + length xs) ys w1)"
  by (induction xs arbitrary: i w) (simp_all split: option.splits)

lemma run_jobs_cong:
  assumes "outputs w = outputs w'"
  shows "(run_jobs e fmt n i urls w = None \<and> run_jobs e fmt n' i' urls w' = None)
       \<or> (\<exists>a a'. run_jobs e fmt n i urls w = Some a \<and> run_jobs e fmt n' i' urls w' = Some a'
                  \<and> outputs a = outputs a')"
  using assms
proof (induction urls arbitrary: i i' w w')
  case Nil
  then show ?case by simp
next
  case (Cons url urls)
  from run_job_cong[OF Cons.prems, of e fmt n "Suc i" url n' "Suc i'"] show ?case
  proof
    assume "run_job e fmt n (Suc i) url w = None \<and> run_job e fmt n' (Suc i') url w' = None"
    then show ?thesis by simp
  next
    assume "\<exists>a a'. run_job e fmt n (Suc i) url w = Some a \<and> run_job e fmt n' (Suc i') url w' = Some a'
                  \<and> outputs a = outputs a'"
    then obtain a a' where a: "run_job e fmt n (Suc i) url w = Some a"
      "run_job e fmt n' (Suc i') url w' = Some a'" "outputs a = outputs a'" by blast
    from Cons.IH[OF a(3), of "Suc i" "Suc i'"] a(1,2) show ?thesis by simp
  qed
qed

lemma run_jobs_store:
  assumes "run_jobs e fmt n i urls w = Some w1"
  shows "extraction_paused w1 = extraction_paused w \<and> running (status w1) = running (status w)
       \<and> error (status w1) = error (status w)
       \<and> (running (status w) \<and> \<not> extraction_paused w
            \<longrightarrow> seen_ids w1 = seen_ids w \<union> (\<Union>u \<in> set urls. job_ids e u))
       \<and> (finite (seen_ids w) \<and> self_total_properties w = card (seen_ids w)
            \<longrightarrow> finite (seen_ids w1) \<and> self_total_properties w1 = card (seen_ids w1))"
  using assms
proof (induction urls arbitrary: i w)
  case Nil
  then show ?case by simp
next
  case (Cons url urls)
  from Cons.prems obtain a where a: "run_job e fmt n (Suc i) url w = Some a"
    "run_jobs e fmt n (Suc i) urls a = Some w1"
    by (cases "run_job e fmt n (Suc i) url w") simp_all
  note J = run_job_store[OF a(1)]
  note R = Cons.IH[OF a(2)]
  from J R have flags: "extraction_paused w1 = extraction_paused w"
    "running (status w1) = running (status w)" "error (status w1) = error (status w)"
    by simp_all
  have seen: "running (status w) \<and> \<not> extraction_paused w
            \<longrightarrow> seen_ids w1 = seen_ids w \<union> (\<Union>u \<in> set (url # urls). job_ids e u)"
  proof
    assume h: "running (status w) \<and> \<not> extraction_paused w"
    with J have "seen_ids a = seen_ids w \<union> job_ids e url" "running (status a) \<and> \<not> extraction_paused a"
      by simp_all
    with R have "seen_ids w1 = (seen_ids w \<union> job_ids e url) \<union> (\<Union>u \<in> set urls. job_ids e u)"
      by simp
    then show "seen_ids w1 = seen_ids w \<union> (\<Union>u \<in> set (url # urls). job_ids e u)"
      by auto
  qed
  have count: "finite (seen_ids w) \<and> self_total_properties w = card (seen_ids w)
            \<longrightarrow> finite (seen_ids w1) \<and> self_total_properties w1 = card (seen_ids w1)"
    using J R by blast
  from flags seen count show ?case by blast
qed

lemma run_jobs_total:
  "\<not> extraction_paused w \<Longrightarrow> \<exists>w1. run_jobs e fmt n i urls w = Some w1"
proof (induction urls arbitrary: i w)
  case Nil
  show ?case by simp
next
  case (Cons url urls)
  from run_job_total[OF Cons.prems, of e fmt n "Suc i" url] obtain a where
    a: "run_job e fmt n (Suc i) url w = Some a" by blast
  from run_job_store[OF a] Cons.prems have "\<not> extraction_paused a" by simp
  from Cons.IH[OF this, of "Suc i"] a show ?case by simp
qed

lemma outputs_log_banner [simp]: "outputs (log_banner e fmt mw w) = outputs w"
  by (simp add: log_banner_def Let_def)

lemma outputs_log_summary [simp]: "outputs (log_summary e w) = outputs w"
  by (simp add: log_summary_def Let_def)

text \<open>A run with at least one sitemap: the banner, the jobs, the summary, the end.\<close>

lemma run_jobs_of_run:
  assumes "urls \<noteq> []"
  shows "\<exists>w4. outputs w4 = outputs w
           \<and> run e fmt mw urls w =
               (case run_jobs e fmt (length urls) 0 urls w4 of
                  None \<Rightarrow> None
                | Some w5 \<Rightarrow>
                    Some ((log_summary e w5)\<lparr>status := (status (log_summary e w5))
                            \<lparr>end_time := Some (now_iso e), running := False\<rparr>\<rparr>))"
proof -
  define w2 where "w2 = log_banner e fmt mw (w\<lparr>status := (status w)\<lparr>start_time := Some (now_iso e)\<rparr>\<rparr>)"
  define w4 where "w4 = logger_info e (''Processing '' @ string_of_nat (length urls)
                                         @ '' sitemaps...'' @ [newline])
                          (w2\<lparr>status := (status w2)\<lparr>total_categories := length urls\<rparr>\<rparr>)"
  have a: "outputs (v\<lparr>status := (status v)\<lparr>start_time := t\<rparr>\<rparr>) = outputs v" for v t
    by (simp add: outputs_def)
  have b: "outputs (v\<lparr>status := (status v)\<lparr>total_categories := k\<rparr>\<rparr>) = outputs v" for v k
    by (simp add: outputs_def)
  have "outputs w4 = outputs w" by (simp add: w4_def w2_def a b)
  moreover from assms have "run e fmt mw urls w =
               (case run_jobs e fmt (length urls) 0 urls w4 of
                  None \<Rightarrow> None
                | Some w5 \<Rightarrow>
                    Some ((log_summary e w5)\<lparr>status := (status (log_summary e w5))
                            \<lparr>end_time := Some (now_iso e), running := False\<rparr>\<rparr>))"
    by (simp add: run_def Let_def w4_def w2_def split: option.splits)
  ultimately show ?thesis by blast
qed

lemma outputs_end_cong:
  assumes "outputs v = outputs v'"
  shows "outputs ((log_summary e v)\<lparr>status := (status (log_summary e v))
                            \<lparr>end_time := t, running := False\<rparr>\<rparr>)
       = outputs ((log_summary e v')\<lparr>status := (status (log_summary e v'))
                            \<lparr>end_time := t, running := False\<rparr>\<rparr>)"
proof -
  have c: "outputs a = outputs b \<Longrightarrow>
        outputs (a\<lparr>status := (status a)\<lparr>end_time := t, running := False\<rparr>\<rparr>)
      = outputs (b\<lparr>status := (status b)\<lparr>end_time := t, running := False\<rparr>\<rparr>)" for a b
    by (simp add: outputs_def)
  from assms have "outputs (log_summary e v) = outputs (log_summary e v')" by simp
  then show ?thesis by (rule c)
qed

text \<open>
  C4, on the run whose jobs are taken one after the other. Let the content downloaded for
  a job be text that \<open>ET.fromstring\<close> rejects, in a run that is running and not paused.
  Then the parse error leaves \<open>extract_listings_from_sitemap\<close> as an exception. The run
  catches it at the job: the job returns, its last log entry is the error with the text
  of the exception, and it leaves the outputs as they were, the store, the files on disk
  and in the run state and the counts of records among them. The jobs around it give the
  outputs they give without it, whatever their numbers. The run ends, with its end time
  set, the running flag off and the error field as it was; and with its other jobs it
  gives the outputs of the run without the malformed job.
\<close>

theorem malformed_sitemap_is_isolated:
  assumes "downloaded e bad = Some c" and "c \<noteq> []" and "fromstring e c = Inl msg"
    and "running (status w)" and "\<not> extraction_paused w"
  shows "(\<exists>w1. extract_listings_from_sitemap e bad w = Inl (msg, w1) \<and> outputs w1 = outputs w)
       \<and> (\<exists>w1. run_job e fmt n k bad w = Some w1
              \<and> last (logs (status w1))
                  = ''['' @ now_clock e @ ''] ERROR - Error processing sitemap: '' @ msg
              \<and> outputs w1 = outputs w)
       \<and> (\<exists>a b. run_jobs e fmt n i (before @ bad # after) w = Some a
              \<and> run_jobs e fmt n' i' (before @ after) w = Some b
              \<and> outputs a = outputs b)
       \<and> (\<exists>a. run e fmt mw (before @ bad # after) w = Some a
              \<and> \<not> running (status a) \<and> error (status a) = error (status w)
              \<and> end_time (status a) = Some (now_iso e)
              \<and> (before @ after \<noteq> [] \<longrightarrow>
                    (\<exists>b. run e fmt mw (before @ after) w = Some b \<and> outputs a = outputs b)))"
proof -
  from assms(1-3) have jo: "job_offers e bad = Inl msg" by (simp add: job_offers_def)
  have iso: "\<exists>a b. run_jobs e fmt n i (before @ bad # after) v = Some a
              \<and> run_jobs e fmt n' i' (before @ after) v' = Some b
              \<and> outputs a = outputs b"
    if v: "outputs v = outputs v'" "running (status v)" "\<not> extraction_paused v"
    for v v' n i n' i'
  proof -
    from run_jobs_cong[OF v(1), of e fmt n i before n' i'] run_jobs_total[OF v(3), of e fmt n i before]
    obtain p p' where p: "run_jobs e fmt n i before v = Some p"
      "run_jobs e fmt n' i' before v' = Some p'" "outputs p = outputs p'" by auto
    from run_jobs_store[OF p(1)] v(2,3) have fp: "running (status p)" "\<not> extraction_paused p"
      by simp_all
    from run_job_raises[OF jo fp, of fmt n "Suc (i + length before)"] obtain q where
      q: "run_job e fmt n (Suc (i + length before)) bad p = Some q" "outputs q = outputs p" by blast
    from q(2) p(3) have qq: "outputs q = outputs p'" by simp
    from outputs_flags[OF q(2)] fp have "\<not> extraction_paused q" by simp
    from run_jobs_cong[OF qq, of e fmt n "Suc (i + length before)" after n' "i' + length before"]
      run_jobs_total[OF this, of e fmt n "Suc (i + length before)" after]
    obtain a b where ab: "run_jobs e fmt n (Suc (i + length before)) after q = Some a"
      "run_jobs e fmt n' (i' + length before) after p' = Some b" "outputs a = outputs b" by auto
    from p(1) q(1) ab(1) have "run_jobs e fmt n i (before @ bad # after) v = Some a"
      by (simp add: run_jobs_append)
    moreover from p(2) ab(2) have "run_jobs e fmt n' i' (before @ after) v' = Some b"
      by (simp add: run_jobs_append)
    ultimately show ?thesis using ab(3) by blast
  qed
  have A: "\<exists>w1. extract_listings_from_sitemap e bad w = Inl (msg, w1) \<and> outputs w1 = outputs w"
    by (rule extract_raises[OF jo])
  have B: "\<exists>w1. run_job e fmt n k bad w = Some w1
              \<and> last (logs (status w1))
                  = ''['' @ now_clock e @ ''] ERROR - Error processing sitemap: '' @ msg
              \<and> outputs w1 = outputs w"
    by (rule run_job_raises[OF jo assms(4,5)])
  have C: "\<exists>a b. run_jobs e fmt n i (before @ bad # after) w = Some a
              \<and> run_jobs e fmt n' i' (before @ after) w = Some b
              \<and> outputs a = outputs b"
    by (rule iso[OF refl assms(4,5)])
  have D: "\<exists>a. run e fmt mw (before @ bad # after) w = Some a
              \<and> \<not> running (status a) \<and> error (status a) = error (status w)
              \<and> end_time (status a) = Some (now_iso e)
              \<and> (before @ after \<noteq> [] \<longrightarrow>
                    (\<exists>b. run e fmt mw (before @ after) w = Some b \<and> outputs a = outputs b))"
  proof -
    let ?all = "before @ bad # after"
    let ?fin = "\<lambda>v. (log_summary e v)\<lparr>status := (status (log_summary e v))
                            \<lparr>end_time := Some (now_iso e), running := False\<rparr>\<rparr>"
    have ne: "?all \<noteq> []" by simp
    from run_jobs_of_run[OF ne, of w e fmt mw] obtain w4 where
      w4: "outputs w4 = outputs w"
      and r: "run e fmt mw ?all w =
               (case run_jobs e fmt (length ?all) 0 ?all w4 of None \<Rightarrow> None | Some w5 \<Rightarrow> Some (?fin w5))"
      by blast
    from outputs_flags[OF w4] assms(4,5) have f4: "running (status w4)" "\<not> extraction_paused w4"
      by simp_all
    from run_jobs_total[OF f4(2), of e fmt "length ?all" 0 ?all] obtain a5 where
      a5: "run_jobs e fmt (length ?all) 0 ?all w4 = Some a5" by blast
    with r have ra: "run e fmt mw ?all w = Some (?fin a5)" by simp
    from run_jobs_store[OF a5] outputs_flags[OF w4] have "error (status a5) = error (status w)"
      by simp
    then have e5: "error (status (?fin a5)) = error (status w)"
      by (simp add: log_summary_def Let_def logger_info_def emit_def)
    have rest: "before @ after \<noteq> [] \<longrightarrow>
                    (\<exists>b. run e fmt mw (before @ after) w = Some b \<and> outputs (?fin a5) = outputs b)"
    proof
      assume ne': "before @ after \<noteq> []"
      from run_jobs_of_run[OF ne', of w e fmt mw] obtain v4 where
        v4: "outputs v4 = outputs w"
        and r': "run e fmt mw (before @ after) w =
               (case run_jobs e fmt (length (before @ after)) 0 (before @ after) v4 of
                  None \<Rightarrow> None | Some w5 \<Rightarrow> Some (?fin w5))"
        by blast
      from w4 v4 have o: "outputs w4 = outputs v4" by simp
      from iso[OF o f4, of "length ?all" 0 "length (before @ after)" 0] a5 obtain b5 where
        b5: "run_jobs e fmt (length (before @ after)) 0 (before @ after) v4 = Some b5"
        "outputs a5 = outputs b5" by auto
      from b5(1) r' have "run e fmt mw (before @ after) w = Some (?fin b5)" by simp
      moreover from b5(2) have "outputs (?fin a5) = outputs (?fin b5)" by (rule outputs_end_cong)
      ultimately show "\<exists>b. run e fmt mw (before @ after) w = Some b \<and> outputs (?fin a5) = outputs b"
        by blast
    qed
    have "\<not> running (status (?fin a5))" "end_time (status (?fin a5)) = Some (now_iso e)"
      by simp_all
    with ra e5 rest show ?thesis by blast
  qed
  from A B C D show ?thesis by blast
qed

text \<open>
  The example site: the leaf \<open>b\<close> is malformed; the run over \<open>a\<close>, \<open>b\<close> and \<open>c\<close> ends
  with the files of \<open>a\<close> and \<open>c\<close>, as the run over \<open>a\<close> and \<open>c\<close> does.
\<close>

theorem malformed_sitemap_is_isolated_witness:
  "downloaded example_env ''https://example.com/b.xml.gz'' = Some ''<b''
   \<and> fromstring example_env ''<b'' = Inl ''unclosed token: line 1, column 0''
   \<and> running (status example_started) \<and> \<not> extraction_paused example_started
   \<and> (\<exists>a b. run example_env ''csv'' 5
               [''https://example.com/a.xml.gz'', ''https://example.com/b.xml.gz'',
                ''https://example.com/c.xml.gz''] example_started = Some a
            \<and> run example_env ''csv'' 5
                 [''https://example.com/a.xml.gz'', ''https://example.com/c.xml.gz'']
                 example_started = Some b
            \<and> outputs a = outputs b \<and> \<not> running (status a) \<and> error (status a) = None
            \<and> files (status a) = [''listings_a_20240115_120000.csv'', ''listings_c_20240115_120000.csv''])"
proof -
  let ?A = "''https://example.com/a.xml.gz''" and ?B = "''https://example.com/b.xml.gz''"
  let ?C = "''https://example.com/c.xml.gz''"
  have h1: "downloaded example_env ?B = Some ''<b''" by code_simp
  have h2: "''<b'' \<noteq> []" by simp
  have h3: "fromstring example_env ''<b'' = Inl ''unclosed token: line 1, column 0''" by code_simp
  have h4: "running (status example_started)"
    by (simp add: example_started_def initial_world_def initial_status_def)
  have h5: "\<not> extraction_paused example_started"
    by (simp add: example_started_def initial_world_def)
  have h6: "error (status example_started) = None"
    by (simp add: example_started_def initial_world_def initial_status_def)
  have h7: "run_outcome (case run example_env ''csv'' 5 [?A, ?C] example_started of
                           Some b \<Rightarrow> b | None \<Rightarrow> example_started)
            = (False, Some ''2024-01-15T12:00:00'',
               [''listings_a_20240115_120000.csv'', ''listings_c_20240115_120000.csv''])"
    by code_simp
  note T = malformed_sitemap_is_isolated[OF h1 h2 h3 h4 h5, where before = "[?A]" and after = "[?C]"
      and fmt = "''csv''" and mw = 5]
  from T obtain a where a: "run example_env ''csv'' 5 ([?A] @ ?B # [?C]) example_started = Some a"
    "\<not> running (status a)" "error (status a) = error (status example_started)"
    "[?A] @ [?C] \<noteq> [] \<longrightarrow>
       (\<exists>b. run example_env ''csv'' 5 ([?A] @ [?C]) example_started = Some b \<and> outputs a = outputs b)"
    by blast
  from a(4) obtain b where b: "run example_env ''csv'' 5 ([?A] @ [?C]) example_started = Some b"
    "outputs a = outputs b" by auto
  from b(1) h7 have "files (status b) = [''listings_a_20240115_120000.csv'', ''listings_c_20240115_120000.csv'']"
    by (simp add: run_outcome_def)
  with b(2) have "files (status a) = [''listings_a_20240115_120000.csv'', ''listings_c_20240115_120000.csv'']"
    by (simp add: outputs_def)
  with a(1,2,3) b h6 have "\<exists>a b. run example_env ''csv'' 5 [?A, ?B, ?C] example_started = Some a
            \<and> run example_env ''csv'' 5 [?A, ?C] example_started = Some b
            \<and> outputs a = outputs b \<and> \<not> running (status a) \<and> error (status a) = None
            \<and> files (status a) = [''listings_a_20240115_120000.csv'', ''listings_c_20240115_120000.csv'']"
    by auto
  with h1 h3 h4 h5 show ?thesis by blast
qed

end
